theory Spec2Isabelle
  imports Complex_Main "HOL-Library.Word" "HOL-Library.AList"
begin

section \<open>JavaScript values and the platform\<close>

text \<open>
  A JavaScript string is a sequence of UTF-16 code units. String literals of the script are
  written with \<open>lit\<close>; the two non-ASCII places of the script (the letter e-acute, the
  line feed of the template) are spliced in as code units.
\<close>

type_synonym jsstring = "16 word list"

definition lit :: "string \<Rightarrow> jsstring" where
  "lit s = map of_char s"

text \<open>
  The plain data values the script handles: what \<open>JSON.parse\<close> returns, the object literals
  the script builds, and \<open>undefined\<close>. Numbers are never inspected by the script, so their
  type is left open. An object is its list of own properties; \<open>map_of\<close> reads a property.
\<close>

datatype 'n jsval =
    Undefined
  | Null
  | Bool bool
  | Num 'n
  | Str jsstring
  | Arr "'n jsval list"
  | Obj "(jsstring \<times> 'n jsval) list"

datatype exn = TypeError | SyntaxError | StorageError | FetchFailed | BodyReadFailed

text \<open>
  What the browser provides and the script calls: \<open>JSON.parse\<close> (\<open>None\<close> when it throws
  SyntaxError), \<open>JSON.stringify\<close>, and whether \<open>localStorage.setItem\<close> accepts a write
  (it throws when the quota is exceeded or storage is disabled).
\<close>

record 'n platform =
  JSON_parse :: "jsstring \<Rightarrow> 'n jsval option"
  JSON_stringify :: "'n jsval \<Rightarrow> jsstring"
  setItem_ok :: "(jsstring \<rightharpoonup> jsstring) \<Rightarrow> jsstring \<Rightarrow> jsstring \<Rightarrow> bool"

text \<open>The outcome of \<open>fetch\<close>: the promise rejects, or a response with a status arrives,
  whose body can be read as text or not.\<close>

datatype response_body = Unreadable | Body jsstring

datatype fetch_result = Rejected | Response nat response_body

definition resp_ok :: "nat \<Rightarrow> bool" where
  "resp_ok status \<longleftrightarrow> 200 \<le> status \<and> status \<le> 299"

section \<open>Page state\<close>

datatype 'n node_body = TextContent "'n jsval" | InnerHTML jsstring

record 'n element =
  eid :: nat
  className :: jsstring
  attributes :: "(jsstring \<times> jsstring) list"
  body :: "'n node_body"

record latest_question =
  lq_innerHTML :: jsstring
  lq_display :: jsstring
  lq_aria_hidden :: jsstring

text \<open>The payload handed to \<open>JSON.stringify\<close> for the request body.\<close>

record 'n request =
  req_url :: jsstring
  req_messages :: "'n jsval list"
  req_max_tokens :: nat
  req_temperature :: rat

datatype 'n log_entry =
    Warn_save_failed
  | Error_non_ok nat jsstring
  | Error_unexpected "'n jsval"
  | Error_caught exn

text \<open>
  The module-level variables (\<open>userName\<close>, \<open>history\<close>), \<open>localStorage\<close>, the DOM nodes the
  script touches, the requests issued with \<open>fetch\<close> and the console. An element handle is
  the number of elements created before it.
\<close>

record 'n state =
  localStorage :: "jsstring \<rightharpoonup> jsstring"
  userName :: jsstring
  history :: "'n jsval list"
  chatWindow :: "'n element list"
  created :: nat
  latestQuestion :: latest_question
  userInput_value :: jsstring
  userInput_focused :: bool
  requests :: "'n request list"
  console :: "'n log_entry list"

section \<open>Configuration\<close>

definition WORKER_URL :: jsstring where
  "WORKER_URL = lit ''https://loreal.anvimsiddabhattuni.workers.dev''"

definition HISTORY_KEY :: jsstring where
  "HISTORY_KEY = lit ''loreal_chat_history_v1''"

definition NAME_KEY :: jsstring where
  "NAME_KEY = lit ''loreal_user_name_v1''"

definition MAX_HISTORY_MESSAGES :: nat where
  "MAX_HISTORY_MESSAGES = 20"

definition baseSystemPrompt :: jsstring where
  "baseSystemPrompt =
     lit ''You are the L'Or'' @ [0xE9] @ lit ''al Smart Product Advisor. Only answer user questions about L'Or''
     @ [0xE9] @ lit ''al products (makeup, skincare, haircare, fragrances), product details, and personalized routines or recommendations. If a user asks about anything outside L'Or''
     @ [0xE9] @ lit ''al products or routines, reply briefly that you can only assist with L'Or''
     @ [0xE9] @ lit ''al product-related questions and offer to help within that scope.''"

section \<open>String helpers\<close>

text \<open>\<open>String.prototype.trim\<close>: strips WhiteSpace and LineTerminator code units at both ends.\<close>

definition is_white :: "16 word \<Rightarrow> bool" where
  "is_white c \<longleftrightarrow>
     c \<in> {0x09, 0x0A, 0x0B, 0x0C, 0x0D, 0x20, 0xA0, 0x1680, 0x2028, 0x2029, 0x202F, 0x205F,
          0x3000, 0xFEFF}
     \<or> (0x2000 \<le> c \<and> c \<le> 0x200A)"

definition trim :: "jsstring \<Rightarrow> jsstring" where
  "trim s = rev (dropWhile is_white (rev (dropWhile is_white s)))"

text \<open>\<open>text.replace(/c/g, r)\<close> for a one-character pattern.\<close>

definition replace_all :: "16 word \<Rightarrow> jsstring \<Rightarrow> jsstring \<Rightarrow> jsstring" where
  "replace_all c r s = concat (map (\<lambda>x. if x = c then r else [x]) s)"

definition escapeHtml :: "jsstring \<Rightarrow> jsstring" where
  "escapeHtml text =
     replace_all 0x3E (lit ''&gt;'')
       (replace_all 0x3C (lit ''&lt;'')
         (replace_all 0x26 (lit ''&amp;'') text))"

section \<open>Property access\<close>

definition nullish :: "'n jsval \<Rightarrow> bool" where
  "nullish v \<longleftrightarrow> v = Undefined \<or> v = Null"

text \<open>
  \<open>v.k\<close> on a value \<open>v\<close> that is not \<open>null\<close> or \<open>undefined\<close>, for the property names
  the script reads (\<open>role\<close>, \<open>content\<close>, \<open>choices\<close>, \<open>message\<close>): no built-in prototype
  defines any of them, so only an object's own property answers.
\<close>

fun own_prop :: "'n jsval \<Rightarrow> jsstring \<Rightarrow> 'n jsval" where
  "own_prop (Obj kvs) k = (case map_of kvs k of None \<Rightarrow> Undefined | Some v \<Rightarrow> v)"
| "own_prop v k = Undefined"

text \<open>\<open>v[0]\<close> on a value that is not \<open>null\<close> or \<open>undefined\<close>.\<close>

fun index0 :: "'n jsval \<Rightarrow> 'n jsval" where
  "index0 (Arr xs) = (case xs of [] \<Rightarrow> Undefined | x # _ \<Rightarrow> x)"
| "index0 (Str s) = (case s of [] \<Rightarrow> Undefined | c # _ \<Rightarrow> Str [c])"
| "index0 (Obj kvs) = (case map_of kvs (lit ''0'') of None \<Rightarrow> Undefined | Some v \<Rightarrow> v)"
| "index0 v = Undefined"

text \<open>
  \<open>data?.choices?.[0]?.message?.content?.trim()\<close>: each \<open>?.\<close> ends the chain with
  \<open>undefined\<close> (here \<open>Inr None\<close>) when the value before it is \<open>null\<close> or \<open>undefined\<close>.
  Calling \<open>trim\<close> on a value that is not a string throws: no other JSON value has a
  callable \<open>trim\<close>.
\<close>

definition reply :: "'n jsval \<Rightarrow> exn + jsstring option" where
  "reply data =
     (if nullish data then Inr None else
      let choices = own_prop data (lit ''choices'') in
      if nullish choices then Inr None else
      let first = index0 choices in
      if nullish first then Inr None else
      let message = own_prop first (lit ''message'') in
      if nullish message then Inr None else
      let content = own_prop message (lit ''content'') in
      if nullish content then Inr None else
      (case content of Str s \<Rightarrow> Inr (Some (trim s)) | _ \<Rightarrow> Inl TypeError))"

section \<open>Helpers: persistence\<close>

definition saveHistory :: "'n platform \<Rightarrow> 'n jsval list \<Rightarrow> 'n state \<Rightarrow> 'n state" where
  "saveHistory P h st =
     (let text = JSON_stringify P (Arr h) in
      if setItem_ok P (localStorage st) HISTORY_KEY text
      then st\<lparr>localStorage := (localStorage st)(HISTORY_KEY \<mapsto> text)\<rparr>
      else st\<lparr>console := console st @ [Warn_save_failed]\<rparr>)"

text \<open>\<open>getItem(k) || "[]"\<close>: a missing item and the empty string both give \<open>"[]"\<close>.\<close>

definition loadHistory :: "'n platform \<Rightarrow> 'n state \<Rightarrow> 'n jsval" where
  "loadHistory P st =
     (let text = (case localStorage st HISTORY_KEY of
                    None \<Rightarrow> lit ''[]''
                  | Some s \<Rightarrow> if s = [] then lit ''[]'' else s)
      in case JSON_parse P text of None \<Rightarrow> Arr [] | Some v \<Rightarrow> v)"

section \<open>Helpers: the transcript\<close>

definition appendMessage :: "'n jsval \<Rightarrow> jsstring \<Rightarrow> 'n state \<Rightarrow> 'n state" where
  "appendMessage text cls st =
     st\<lparr>chatWindow := chatWindow st @
           [\<lparr>eid = created st, className = lit ''msg '' @ cls, attributes = [],
             body = TextContent text\<rparr>],
        created := Suc (created st)\<rparr>"

definition appendTypingIndicator :: "'n state \<Rightarrow> nat \<times> 'n state" where
  "appendTypingIndicator st =
     (created st,
      st\<lparr>chatWindow := chatWindow st @
           [\<lparr>eid = created st, className = lit ''msg ai typing'',
             attributes = [(lit ''aria-hidden'', lit ''true'')],
             body = InnerHTML (lit ''<span class=\"typing-dots\" aria-hidden=\"true\"><span></span><span></span><span></span></span>'')\<rparr>],
         created := Suc (created st)\<rparr>)"

text \<open>\<open>el.remove()\<close>: detaches the element from its parent; nothing happens when it has none.\<close>

definition remove :: "nat \<Rightarrow> 'n state \<Rightarrow> 'n state" where
  "remove el st = st\<lparr>chatWindow := filter (\<lambda>e. eid e \<noteq> el) (chatWindow st)\<rparr>"

definition setLatestQuestion :: "jsstring \<Rightarrow> 'n state \<Rightarrow> 'n state" where
  "setLatestQuestion text st =
     (if text = []
      then st\<lparr>latestQuestion :=
                \<lparr>lq_innerHTML = [], lq_display = lit ''none'', lq_aria_hidden = lit ''true''\<rparr>\<rparr>
      else st\<lparr>latestQuestion :=
                \<lparr>lq_innerHTML = lit ''<strong>Your question</strong>: '' @ escapeHtml text,
                 lq_display = lit ''block'', lq_aria_hidden = lit ''false''\<rparr>\<rparr>)"

section \<open>The conversation\<close>

text \<open>The object literal \<open>{ role: r, content: c }\<close>.\<close>

definition msg_obj :: "'n jsval \<Rightarrow> 'n jsval \<Rightarrow> 'n jsval" where
  "msg_obj r c = Obj [(lit ''role'', r), (lit ''content'', c)]"

definition systemPromptFor :: "jsstring \<Rightarrow> jsstring" where
  "systemPromptFor name =
     baseSystemPrompt @ [0x0A] @ lit ''User name: '' @ name
       @ lit ''. Use the user's name when appropriate.''"

text \<open>\<open>xs.slice(-n)\<close>: the last \<open>n\<close> elements, all of them when there are fewer.\<close>

definition slice_last :: "nat \<Rightarrow> 'a list \<Rightarrow> 'a list" where
  "slice_last n xs = drop (length xs - n) xs"

text \<open>
  \<open>history.push(m); if (history.length > MAX_HISTORY_MESSAGES) history =
  history.slice(-MAX_HISTORY_MESSAGES)\<close>, as the submit handler does for the user message
  and for the assistant reply.
\<close>

definition push_history :: "'a list \<Rightarrow> 'a \<Rightarrow> 'a list" where
  "push_history h m =
     (let h' = h @ [m] in
      if length h' > MAX_HISTORY_MESSAGES then slice_last MAX_HISTORY_MESSAGES h' else h')"

text \<open>The push, the truncation and the \<open>saveHistory(history)\<close> that follows them, the three
  statements the handler runs for each message it records.\<close>

definition append_history :: "'n platform \<Rightarrow> 'n jsval \<Rightarrow> 'n state \<Rightarrow> 'n state" where
  "append_history P m st =
     (let st1 = st\<lparr>history := push_history (history st) m\<rparr>
      in saveHistory P (history st1) st1)"

text \<open>\<open>history.map((m) => ({ role: m.role, content: m.content }))\<close>: reading a property of
  a \<open>null\<close> entry throws.\<close>

fun map_history :: "'n jsval list \<Rightarrow> exn + 'n jsval list" where
  "map_history [] = Inr []"
| "map_history (m # ms) =
     (if nullish m then Inl TypeError
      else case map_history ms of
             Inl e \<Rightarrow> Inl e
           | Inr rest \<Rightarrow>
               Inr (msg_obj (own_prop m (lit ''role'')) (own_prop m (lit ''content'')) # rest))"

definition messagesToSend :: "jsstring \<Rightarrow> 'n jsval list \<Rightarrow> exn + 'n jsval list" where
  "messagesToSend name h =
     (case map_history h of
        Inl e \<Rightarrow> Inl e
      | Inr ms \<Rightarrow> Inr (msg_obj (Str (lit ''system'')) (Str (systemPromptFor name)) # ms))"

section \<open>Initialisation\<close>

text \<open>\<open>answer\<close> is what \<open>window.prompt\<close> returns: \<open>None\<close> when the dialog is dismissed.
  The write of the name is not guarded: when it throws, the script stops.\<close>

definition getUserName ::
  "'n platform \<Rightarrow> jsstring option \<Rightarrow> 'n state \<Rightarrow> (exn + jsstring) \<times> 'n state" where
  "getUserName P answer st =
     (case localStorage st NAME_KEY of
        Some name \<Rightarrow>
          if name \<noteq> [] then (Inr name, st)
          else
            let name' = (case answer of None \<Rightarrow> lit ''Friend''
                         | Some a \<Rightarrow> if a = [] then lit ''Friend'' else a) in
            if setItem_ok P (localStorage st) NAME_KEY name'
            then (Inr name', st\<lparr>localStorage := (localStorage st)(NAME_KEY \<mapsto> name')\<rparr>)
            else (Inl StorageError, st)
      | None \<Rightarrow>
          let name' = (case answer of None \<Rightarrow> lit ''Friend''
                       | Some a \<Rightarrow> if a = [] then lit ''Friend'' else a) in
          if setItem_ok P (localStorage st) NAME_KEY name'
          then (Inr name', st\<lparr>localStorage := (localStorage st)(NAME_KEY \<mapsto> name')\<rparr>)
          else (Inl StorageError, st))"

definition welcome_text :: "jsstring \<Rightarrow> jsstring" where
  "welcome_text name =
     lit ''Hi '' @ name @ lit ''! I'm your L'Or'' @ [0xE9]
       @ lit ''al Smart Product Advisor. Ask me about products, routines, or personalised recommendations.''"

text \<open>\<open>for (const m of history) appendMessage(m.content, m.role === "user" ? "user" : "ai")\<close>.\<close>

fun render_saved :: "'n jsval list \<Rightarrow> 'n state \<Rightarrow> 'n state \<times> exn option" where
  "render_saved [] st = (st, None)"
| "render_saved (m # ms) st =
     (if nullish m then (st, Some TypeError)
      else render_saved ms
             (appendMessage (own_prop m (lit ''content''))
                (if own_prop m (lit ''role'') = Str (lit ''user'') then lit ''user'' else lit ''ai'')
                st))"

text \<open>\<open>let history = loadHistory(); if (!Array.isArray(history)) history = [];\<close>\<close>

definition initial_history :: "'n platform \<Rightarrow> 'n state \<Rightarrow> 'n jsval list" where
  "initial_history P st = (case loadHistory P st of Arr xs \<Rightarrow> xs | _ \<Rightarrow> [])"

text \<open>The top-level statements of the script, run once when the page loads. The second
  component is the exception that stopped the script, if one did.\<close>

definition init :: "'n platform \<Rightarrow> jsstring option \<Rightarrow> 'n state \<Rightarrow> 'n state \<times> exn option" where
  "init P answer st =
     (case getUserName P answer st of
        (Inl e, st1) \<Rightarrow> (st1, Some e)
      | (Inr name, st1) \<Rightarrow>
          let st2 = st1\<lparr>userName := name\<rparr>;
              st3 = st2\<lparr>history := initial_history P st2\<rparr>
          in if history st3 = [] then
               let st4 = appendMessage (Str (welcome_text name)) (lit ''ai'') st3;
                   st5 = st4\<lparr>history := history st4
                                  @ [msg_obj (Str (lit ''assistant'')) (Str (welcome_text name))]\<rparr>
               in (saveHistory P (history st5) st5, None)
             else render_saved (history st3) st3)"

section \<open>The submit handler\<close>

text \<open>
  The handler is asynchronous: it runs up to the \<open>fetch\<close> call (\<open>submit_start\<close>), and
  resumes when the request has settled (\<open>submit_finish\<close>). \<open>submit\<close> is one whole cycle,
  with no other event handled in between.
\<close>

datatype started = NoOp | Aborted exn | Pending nat

definition submit_start :: "'n platform \<Rightarrow> 'n state \<Rightarrow> started \<times> 'n state" where
  "submit_start P st =
     (let userText = trim (userInput_value st) in
      if userText = [] then (NoOp, st)
      else
        let st1 = setLatestQuestion userText st;
            st2 = appendMessage (Str userText) (lit ''user'') st1;
            st4 = append_history P (msg_obj (Str (lit ''user'')) (Str userText)) st2;
            st5 = st4\<lparr>userInput_value := [], userInput_focused := False\<rparr>;
            (typingEl, st6) = appendTypingIndicator st5
        in case messagesToSend (userName st6) (history st6) of
             Inl e \<Rightarrow> (Aborted e, st6)
           | Inr ms \<Rightarrow>
               (Pending typingEl,
                st6\<lparr>requests := requests st6 @
                       [\<lparr>req_url = WORKER_URL, req_messages = ms, req_max_tokens = 600,
                         req_temperature = 2 / 10\<rparr>]\<rparr>))"

text \<open>The \<open>catch\<close> branch: the guarded second removal, the notice, the log.\<close>

definition on_catch :: "nat \<Rightarrow> exn \<Rightarrow> 'n state \<Rightarrow> 'n state" where
  "on_catch typingEl err st =
     (let st1 = remove typingEl st;
          st2 = appendMessage (Str (lit ''Network error. Check console.'')) (lit ''ai'') st1
      in st2\<lparr>console := console st2 @ [Error_caught err]\<rparr>)"

definition submit_finish :: "'n platform \<Rightarrow> nat \<Rightarrow> fetch_result \<Rightarrow> 'n state \<Rightarrow> 'n state" where
  "submit_finish P typingEl r st =
     (case r of
        Rejected \<Rightarrow> on_catch typingEl FetchFailed st
      | Response status b \<Rightarrow>
          let st1 = remove typingEl st in
          if \<not> resp_ok status then
            (case b of
               Unreadable \<Rightarrow> on_catch typingEl BodyReadFailed st1
             | Body text \<Rightarrow>
                 let st2 = appendMessage (Str (lit ''Server error. See console.'')) (lit ''ai'') st1
                 in st2\<lparr>console := console st2 @ [Error_non_ok status text]\<rparr>)
          else
            (case b of
               Unreadable \<Rightarrow> on_catch typingEl BodyReadFailed st1
             | Body text \<Rightarrow>
                 (case JSON_parse P text of
                    None \<Rightarrow> on_catch typingEl SyntaxError st1
                  | Some data \<Rightarrow>
                      (case reply data of
                         Inl e \<Rightarrow> on_catch typingEl e st1
                       | Inr None \<Rightarrow>
                           (let st2 = appendMessage
                                        (Str (lit ''No reply received. Check worker logs.''))
                                        (lit ''ai'') st1
                            in st2\<lparr>console := console st2 @ [Error_unexpected data]\<rparr>)
                       | Inr (Some rp) \<Rightarrow>
                           if rp \<noteq> [] then
                             (let st2 = appendMessage (Str rp) (lit ''ai'') st1
                              in append_history P
                                   (msg_obj (Str (lit ''assistant'')) (Str rp)) st2)
                           else
                             (let st2 = appendMessage
                                          (Str (lit ''No reply received. Check worker logs.''))
                                          (lit ''ai'') st1
                              in st2\<lparr>console := console st2 @ [Error_unexpected data]\<rparr>)))))"

definition submit ::
  "'n platform \<Rightarrow> fetch_result \<Rightarrow> 'n state \<Rightarrow> 'n state \<times> exn option" where
  "submit P r st =
     (case submit_start P st of
        (NoOp, st') \<Rightarrow> (st', None)
      | (Aborted e, st') \<Rightarrow> (st', Some e)
      | (Pending typingEl, st') \<Rightarrow> (submit_finish P typingEl r st', None))"

text \<open>
  The reply that the handler accepts from a settled request: the response has a success
  status, its body is read and parses, the optional chain gives a string, and the trimmed
  string is not empty. It names the condition under which \<open>submit_finish\<close> reaches the
  branch that records the assistant's message.
\<close>

definition accepted_reply :: "'n platform \<Rightarrow> fetch_result \<Rightarrow> jsstring option" where
  "accepted_reply P r =
     (case r of
        Rejected \<Rightarrow> None
      | Response status b \<Rightarrow>
          (case b of
             Unreadable \<Rightarrow> None
           | Body text \<Rightarrow>
               if resp_ok status then
                 (case JSON_parse P text of
                    None \<Rightarrow> None
                  | Some data \<Rightarrow>
                      (case reply data of
                         Inl e \<Rightarrow> None
                       | Inr None \<Rightarrow> None
                       | Inr (Some rp) \<Rightarrow> if rp \<noteq> [] then Some rp else None))
               else None))"

section \<open>A reference platform\<close>

text \<open>
  The theorems below hold for every platform. Where one is applied to a concrete page, the
  platform is this one: a writer and a reader of JSON text (RFC 8259), with a number kept
  as its lexeme and an object's members in the order of the text, and a store that accepts
  every write or none.
\<close>

definition hex_digit :: "nat \<Rightarrow> 16 word" where
  "hex_digit d = (if d < 10 then 0x30 + of_nat d else 0x57 + of_nat d)"

definition unicode_escape :: "16 word \<Rightarrow> jsstring" where
  "unicode_escape c =
     (let n = unat c in
      [0x5C, 0x75, hex_digit (n div 4096), hex_digit (n div 256 mod 16),
       hex_digit (n div 16 mod 16), hex_digit (n mod 16)])"

definition quote_unit :: "16 word \<Rightarrow> jsstring" where
  "quote_unit c =
     (if c = 0x08 then [0x5C, 0x62]
      else if c = 0x09 then [0x5C, 0x74]
      else if c = 0x0A then [0x5C, 0x6E]
      else if c = 0x0C then [0x5C, 0x66]
      else if c = 0x0D then [0x5C, 0x72]
      else if c = 0x22 then [0x5C, 0x22]
      else if c = 0x5C then [0x5C, 0x5C]
      else if c < 0x20 \<or> (0xD800 \<le> c \<and> c \<le> 0xDFFF) then unicode_escape c
      else [c])"

fun quote_units :: "jsstring \<Rightarrow> jsstring" where
  "quote_units [] = []"
| "quote_units [c] = quote_unit c"
| "quote_units (c # d # cs) =
     (if 0xD800 \<le> c \<and> c \<le> 0xDBFF \<and> 0xDC00 \<le> d \<and> d \<le> 0xDFFF
      then c # d # quote_units cs
      else quote_unit c @ quote_units (d # cs))"

definition quote :: "jsstring \<Rightarrow> jsstring" where
  "quote s = [0x22] @ quote_units s @ [0x22]"

fun join_comma :: "jsstring list \<Rightarrow> jsstring" where
  "join_comma [] = []"
| "join_comma [x] = x"
| "join_comma (x # y # ys) = x @ [0x2C] @ join_comma (y # ys)"

primrec ref_stringify :: "jsstring jsval \<Rightarrow> jsstring" where
  "ref_stringify Undefined = lit ''null''"
| "ref_stringify Null = lit ''null''"
| "ref_stringify (Bool b) = (if b then lit ''true'' else lit ''false'')"
| "ref_stringify (Num n) = n"
| "ref_stringify (Str s) = quote s"
| "ref_stringify (Arr xs) = [0x5B] @ join_comma (map ref_stringify xs) @ [0x5D]"
| "ref_stringify (Obj kvs) =
     [0x7B] @ join_comma
                (List.map_filter (\<lambda>(k, t). map_option (\<lambda>t'. quote k @ [0x3A] @ t') t)
                   (map (map_prod id (\<lambda>v. if v = Undefined then None else Some (ref_stringify v)))
                      kvs))
     @ [0x7D]"

definition is_ws :: "16 word \<Rightarrow> bool" where
  "is_ws c \<longleftrightarrow> c = 0x20 \<or> c = 0x09 \<or> c = 0x0A \<or> c = 0x0D"

definition skip_ws :: "jsstring \<Rightarrow> jsstring" where
  "skip_ws s = dropWhile is_ws s"

text \<open>The next token must be the character \<open>c\<close>.\<close>

definition expect :: "16 word \<Rightarrow> jsstring \<Rightarrow> jsstring option" where
  "expect c s = (case skip_ws s of [] \<Rightarrow> None | d # r \<Rightarrow> if d = c then Some r else None)"

definition hex_value :: "16 word \<Rightarrow> nat option" where
  "hex_value c =
     (if 0x30 \<le> c \<and> c \<le> 0x39 then Some (unat c - 0x30)
      else if 0x61 \<le> c \<and> c \<le> 0x66 then Some (unat c - 0x57)
      else if 0x41 \<le> c \<and> c \<le> 0x46 then Some (unat c - 0x37)
      else None)"

definition hex4 :: "jsstring \<Rightarrow> 16 word option" where
  "hex4 s =
     (case map hex_value s of
        [Some a, Some b, Some c, Some d] \<Rightarrow> Some (of_nat (((a * 16 + b) * 16 + c) * 16 + d))
      | _ \<Rightarrow> None)"

definition unescape :: "16 word \<Rightarrow> 16 word option" where
  "unescape e =
     (if e = 0x22 \<or> e = 0x5C \<or> e = 0x2F then Some e
      else if e = 0x62 then Some 0x08
      else if e = 0x66 then Some 0x0C
      else if e = 0x6E then Some 0x0A
      else if e = 0x72 then Some 0x0D
      else if e = 0x74 then Some 0x09
      else None)"

text \<open>The characters of a string after its opening quote, up to the closing one.\<close>

fun parse_chars :: "jsstring \<Rightarrow> (jsstring \<times> jsstring) option" where
  "parse_chars [] = None"
| "parse_chars [c] = (if c = 0x22 then Some ([], []) else None)"
| "parse_chars (c # e # cs) =
     (if c = 0x22 then Some ([], e # cs)
      else if c < 0x20 then None
      else if c = 0x5C then
        (if e = 0x75 then
           (case hex4 (take 4 cs) of
              None \<Rightarrow> None
            | Some u \<Rightarrow> map_option (apfst ((#) u)) (parse_chars (drop 4 cs)))
         else
           (case unescape e of
              None \<Rightarrow> None
            | Some u \<Rightarrow> map_option (apfst ((#) u)) (parse_chars cs)))
      else map_option (apfst ((#) c)) (parse_chars (e # cs)))"

definition is_digit :: "16 word \<Rightarrow> bool" where
  "is_digit c \<longleftrightarrow> 0x30 \<le> c \<and> c \<le> 0x39"

text \<open>A run of at least one digit.\<close>

definition digits1 :: "jsstring \<Rightarrow> (jsstring \<times> jsstring) option" where
  "digits1 s = (if takeWhile is_digit s = [] then None
                else Some (takeWhile is_digit s, dropWhile is_digit s))"

text \<open>A number is kept as its lexeme: minus, integer part, fraction, exponent.\<close>

definition parse_number :: "jsstring \<Rightarrow> (jsstring \<times> jsstring) option" where
  "parse_number s =
     (let (sign, s1) = (case s of c # r \<Rightarrow> if c = 0x2D then ([c], r) else ([], s) | [] \<Rightarrow> ([], s)) in
      case (case s1 of
              c # r \<Rightarrow> if c = 0x30 then Some ([c], r) else digits1 s1
            | [] \<Rightarrow> None) of
        None \<Rightarrow> None
      | Some (ip, s2) \<Rightarrow>
          (case (case s2 of
                   c # r \<Rightarrow> if c = 0x2E then map_option (apfst ((#) c)) (digits1 r)
                            else Some ([], s2)
                 | [] \<Rightarrow> Some ([], s2)) of
             None \<Rightarrow> None
           | Some (fp, s3) \<Rightarrow>
               (case (case s3 of
                        c # r \<Rightarrow>
                          if c = 0x65 \<or> c = 0x45 then
                            (case r of
                               d # r' \<Rightarrow>
                                 if d = 0x2B \<or> d = 0x2D
                                 then map_option (apfst (\<lambda>ds. c # d # ds)) (digits1 r')
                                 else map_option (apfst ((#) c)) (digits1 r)
                             | [] \<Rightarrow> None)
                          else Some ([], s3)
                      | [] \<Rightarrow> Some ([], s3)) of
                  None \<Rightarrow> None
                | Some (ep, s4) \<Rightarrow> Some (sign @ ip @ fp @ ep, s4))))"

text \<open>A later member with the same name replaces the earlier one.\<close>

definition members_obj :: "(jsstring \<times> jsstring jsval) list \<Rightarrow> jsstring jsval" where
  "members_obj kvs = Obj (foldl (\<lambda>acc (k, v). AList.update k v acc) [] kvs)"

text \<open>Recursive descent; the first argument bounds the depth of the recursion.\<close>

fun parse_value :: "jsstring \<Rightarrow> jsstring \<Rightarrow> (jsstring jsval \<times> jsstring) option"
  and parse_elements :: "jsstring \<Rightarrow> jsstring \<Rightarrow> (jsstring jsval list \<times> jsstring) option"
  and parse_members ::
    "jsstring \<Rightarrow> jsstring \<Rightarrow> ((jsstring \<times> jsstring jsval) list \<times> jsstring) option"
where
  "parse_value [] s = None"
| "parse_value (f # fuel) s =
     (case skip_ws s of
        [] \<Rightarrow> None
      | c # cs \<Rightarrow>
          if c = 0x5B then
            (case expect 0x5D cs of
               Some r \<Rightarrow> Some (Arr [], r)
             | None \<Rightarrow> map_option (apfst Arr) (parse_elements fuel cs))
          else if c = 0x7B then
            (case expect 0x7D cs of
               Some r \<Rightarrow> Some (Obj [], r)
             | None \<Rightarrow> map_option (apfst members_obj) (parse_members fuel cs))
          else if c = 0x22 then map_option (apfst Str) (parse_chars cs)
          else if take 4 (c # cs) = lit ''true'' then Some (Bool True, drop 4 (c # cs))
          else if take 5 (c # cs) = lit ''false'' then Some (Bool False, drop 5 (c # cs))
          else if take 4 (c # cs) = lit ''null'' then Some (Null, drop 4 (c # cs))
          else map_option (apfst Num) (parse_number (c # cs)))"
| "parse_elements [] s = None"
| "parse_elements (f # fuel) s =
     (case parse_value fuel s of
        None \<Rightarrow> None
      | Some (v, r) \<Rightarrow>
          (case expect 0x2C r of
             Some r' \<Rightarrow> map_option (apfst ((#) v)) (parse_elements fuel r')
           | None \<Rightarrow> map_option (Pair [v]) (expect 0x5D r)))"
| "parse_members [] s = None"
| "parse_members (f # fuel) s =
     (case expect 0x22 s of
        None \<Rightarrow> None
      | Some cs \<Rightarrow>
          (case parse_chars cs of
             None \<Rightarrow> None
           | Some (k, r) \<Rightarrow>
               (case expect 0x3A r of
                  None \<Rightarrow> None
                | Some r1 \<Rightarrow>
                    (case parse_value fuel r1 of
                       None \<Rightarrow> None
                     | Some (v, r2) \<Rightarrow>
                         (case expect 0x2C r2 of
                            Some r3 \<Rightarrow> map_option (apfst ((#) (k, v))) (parse_members fuel r3)
                          | None \<Rightarrow> map_option (Pair [(k, v)]) (expect 0x7D r2))))))"

definition ref_parse :: "jsstring \<Rightarrow> jsstring jsval option" where
  "ref_parse s =
     (case parse_value (s @ s @ [0, 0]) s of
        None \<Rightarrow> None
      | Some (v, r) \<Rightarrow> if skip_ws r = [] then Some v else None)"

definition ref_platform :: "bool \<Rightarrow> jsstring platform" where
  "ref_platform writable =
     \<lparr>JSON_parse = ref_parse, JSON_stringify = ref_stringify,
      setItem_ok = (\<lambda>store k v. writable)\<rparr>"


definition example_state :: "jsstring state" where
  "example_state =
     \<lparr>localStorage = [NAME_KEY \<mapsto> lit ''Ada''],
      userName = lit ''Ada'',
      history = [msg_obj (Str (lit ''assistant'')) (Str (lit ''Hi Ada!''))],
      chatWindow = [\<lparr>eid = 0, className = lit ''msg ai'', attributes = [],
                     body = TextContent (Str (lit ''Hi Ada!''))\<rparr>],
      created = 1,
      latestQuestion = \<lparr>lq_innerHTML = [], lq_display = lit ''none'',
                         lq_aria_hidden = lit ''true''\<rparr>,
      userInput_value = lit '' Which serum? '',
      userInput_focused = True,
      requests = [],
      console = []\<rparr>"

text \<open>A user message whose content is the single code unit \<open>i\<close>.\<close>

definition numbered :: "nat \<Rightarrow> jsstring jsval" where
  "numbered i = msg_obj (Str (lit ''user'')) (Str [of_nat i])"

text \<open>\<open>Array.isArray\<close>.\<close>

fun isArray :: "'n jsval \<Rightarrow> bool" where
  "isArray (Arr xs) = True"
| "isArray v = False"

text \<open>An entry of the shape the script gives its own entries: an object with the two
  properties \<open>role\<close> and \<open>content\<close>, in this order.\<close>

fun is_message :: "'n jsval \<Rightarrow> bool" where
  "is_message (Obj [(k1, r), (k2, c)]) \<longleftrightarrow> k1 = lit ''role'' \<and> k2 = lit ''content''"
| "is_message v \<longleftrightarrow> False"

text \<open>A page whose stored history is an object, not an array.\<close>

definition corrupt_state :: "jsstring state" where
  "corrupt_state = example_state\<lparr>localStorage := [HISTORY_KEY \<mapsto> lit ''{\"role\":\"user\"}'']\<rparr>"

text \<open>The bubble that \<open>appendMessage(text, "ai")\<close> adds as element number \<open>i\<close>.\<close>

definition ai_bubble :: "nat \<Rightarrow> jsstring \<Rightarrow> 'n element" where
  "ai_bubble i text =
     \<lparr>eid = i, className = lit ''msg '' @ lit ''ai'', attributes = [],
      body = TextContent (Str text)\<rparr>"

definition user_bubble :: "nat \<Rightarrow> jsstring \<Rightarrow> 'n element" where
  "user_bubble i text =
     \<lparr>eid = i, className = lit ''msg '' @ lit ''user'', attributes = [],
      body = TextContent (Str text)\<rparr>"

text \<open>
  The text of the bubble that the handler adds to the transcript once the request has
  settled, read off the branches of \<open>submit_finish\<close>.
\<close>

definition rendered_text :: "'n platform \<Rightarrow> fetch_result \<Rightarrow> jsstring" where
  "rendered_text P r =
     (case r of
        Rejected \<Rightarrow> lit ''Network error. Check console.''
      | Response status b \<Rightarrow>
          (case b of
             Unreadable \<Rightarrow> lit ''Network error. Check console.''
           | Body text \<Rightarrow>
               if \<not> resp_ok status then lit ''Server error. See console.''
               else
                 (case JSON_parse P text of
                    None \<Rightarrow> lit ''Network error. Check console.''
                  | Some data \<Rightarrow>
                      (case reply data of
                         Inl e \<Rightarrow> lit ''Network error. Check console.''
                       | Inr None \<Rightarrow> lit ''No reply received. Check worker logs.''
                       | Inr (Some rp) \<Rightarrow>
                           if rp \<noteq> [] then rp
                           else lit ''No reply received. Check worker logs.''))))"

text \<open>An entry as the script writes its own: role \<open>user\<close> or \<open>assistant\<close>, and a content
  that is a non-empty string.\<close>

fun valid_entry :: "'n jsval \<Rightarrow> bool" where
  "valid_entry (Obj [(k1, Str r), (k2, Str c)]) \<longleftrightarrow>
     k1 = lit ''role'' \<and> k2 = lit ''content'' \<and> (r = lit ''user'' \<or> r = lit ''assistant'')
     \<and> c \<noteq> []"
| "valid_entry v \<longleftrightarrow> False"


text \<open>Response bodies used below: a completion, a body that is not JSON, and a completion
  whose content is a number.\<close>

definition serum_body :: jsstring where
  "serum_body = lit ''{\"choices\":[{\"message\":{\"content\":\" Try the serum. \"}}]}''"

definition html_body :: jsstring where
  "html_body = lit ''<html>Bad gateway</html>''"

definition number_body :: jsstring where
  "number_body = lit ''{\"choices\":[{\"message\":{\"content\":5}}]}''"

definition blank_body :: jsstring where
  "blank_body = lit ''{\"choices\":[{\"message\":{\"content\":\"  \"}}]}''"

section \<open>Basic facts\<close>

lemma history_saveHistory [simp]: "history (saveHistory P h st) = history st"
  by (simp add: saveHistory_def Let_def)
lemma chatWindow_saveHistory [simp]: "chatWindow (saveHistory P h st) = chatWindow st"
  by (simp add: saveHistory_def Let_def)
lemma created_saveHistory [simp]: "created (saveHistory P h st) = created st"
  by (simp add: saveHistory_def Let_def)
lemma requests_saveHistory [simp]: "requests (saveHistory P h st) = requests st"
  by (simp add: saveHistory_def Let_def)
lemma userName_saveHistory [simp]: "userName (saveHistory P h st) = userName st"
  by (simp add: saveHistory_def Let_def)

lemma history_append_history [simp]:
  "history (append_history P m st) = push_history (history st) m"
  by (simp add: append_history_def Let_def)
lemma chatWindow_append_history [simp]: "chatWindow (append_history P m st) = chatWindow st"
  by (simp add: append_history_def Let_def)
lemma created_append_history [simp]: "created (append_history P m st) = created st"
  by (simp add: append_history_def Let_def)
lemma requests_append_history [simp]: "requests (append_history P m st) = requests st"
  by (simp add: append_history_def Let_def)
lemma userName_append_history [simp]: "userName (append_history P m st) = userName st"
  by (simp add: append_history_def Let_def)

lemma history_appendMessage [simp]: "history (appendMessage t c st) = history st"
  by (simp add: appendMessage_def)
lemma history_remove [simp]: "history (remove el st) = history st"
  by (simp add: remove_def)
lemma history_setLatestQuestion [simp]: "history (setLatestQuestion t st) = history st"
  by (simp add: setLatestQuestion_def)
lemma history_on_catch [simp]: "history (on_catch el e st) = history st"
  by (simp add: on_catch_def Let_def)

lemma push_history_eq: "push_history h m = slice_last MAX_HISTORY_MESSAGES (h @ [m])"
  by (simp add: push_history_def slice_last_def Let_def)

lemma length_push_history: "length (push_history h m) \<le> MAX_HISTORY_MESSAGES"
  by (simp add: push_history_def slice_last_def Let_def MAX_HISTORY_MESSAGES_def)

lemma slice_last_append_slice:
  "slice_last n (slice_last n xs @ ys) = slice_last n (xs @ ys)"
proof (cases "length xs \<le> n")
  case True
  then show ?thesis by (simp add: slice_last_def)
next
  case False
  then have "length xs + length ys - (length xs - n + n) + (length xs - n)
             = length xs + length ys - n" by arith
  then show ?thesis by (simp add: slice_last_def)
qed

lemma foldl_push_history:
  "ms \<noteq> [] \<Longrightarrow> foldl push_history h ms = slice_last MAX_HISTORY_MESSAGES (h @ ms)"
proof (induction ms arbitrary: h rule: rev_induct)
  case Nil then show ?case by simp
next
  case (snoc m ms)
  show ?case
  proof (cases "ms = []")
    case True then show ?thesis by (simp add: push_history_eq)
  next
    case False
    with snoc.IH have IH: "foldl push_history h ms = slice_last MAX_HISTORY_MESSAGES (h @ ms)"
      by simp
    have "foldl push_history h (ms @ [m]) = push_history (foldl push_history h ms) m"
      by simp
    also have "\<dots> = slice_last MAX_HISTORY_MESSAGES (slice_last MAX_HISTORY_MESSAGES (h @ ms) @ [m])"
      unfolding IH by (rule push_history_eq)
    also have "\<dots> = slice_last MAX_HISTORY_MESSAGES ((h @ ms) @ [m])"
      by (rule slice_last_append_slice)
    finally show ?thesis by simp
  qed
qed

lemma slice_last_append_long:
  "n \<le> length ms \<Longrightarrow> slice_last n (h @ ms) = slice_last n ms"
  by (simp add: slice_last_def)

lemma history_submit_start:
  "history (snd (submit_start P st)) =
     (if trim (userInput_value st) = [] then history st
      else push_history (history st) (msg_obj (Str (lit ''user'')) (Str (trim (userInput_value st)))))"
  by (simp add: submit_start_def Let_def appendTypingIndicator_def split: sum.splits prod.splits)

lemma history_submit_finish:
  "history (submit_finish P el r st) =
     (case accepted_reply P r of
        None \<Rightarrow> history st
      | Some rp \<Rightarrow> push_history (history st) (msg_obj (Str (lit ''assistant'')) (Str rp)))"
  by (simp add: submit_finish_def accepted_reply_def Let_def
           split: fetch_result.splits response_body.splits option.splits sum.splits)

lemma submit_noop: "trim (userInput_value st) = [] \<Longrightarrow> submit P r st = (st, None)"
  by (simp add: submit_def submit_start_def)


lemma history_foldl_append_history:
  "history (foldl (\<lambda>s m. append_history P m s) st ms) = foldl push_history (history st) ms"
  by (induction ms arbitrary: st) simp_all

lemma history_submit:
  "history (fst (submit P r st)) =
     (case submit_start P st of
        (Pending el, st') \<Rightarrow>
          (case accepted_reply P r of
             None \<Rightarrow> history st'
           | Some rp \<Rightarrow> push_history (history st') (msg_obj (Str (lit ''assistant'')) (Str rp)))
      | (_, st') \<Rightarrow> history st')"
  by (simp add: submit_def history_submit_finish split: prod.splits started.splits)

lemma length_history_submit:
  assumes "trim (userInput_value st) \<noteq> []"
  shows "length (history (fst (submit P r st))) \<le> MAX_HISTORY_MESSAGES"
proof -
  obtain k st' where start: "submit_start P st = (k, st')"
    by (cases "submit_start P st")
  with assms have "length (history st') \<le> MAX_HISTORY_MESSAGES"
    using history_submit_start [of P st] by (simp add: length_push_history)
  then show ?thesis
    by (simp add: history_submit start length_push_history split: started.splits option.splits)
qed

section \<open>The bound on the history\<close>

text \<open>
  C1. After any run of more than \<open>MAX_HISTORY_MESSAGES\<close> appends, whatever the history was
  before, the history has exactly \<open>MAX_HISTORY_MESSAGES\<close> entries: the last ones appended,
  in the order of their appends. No append leaves the history longer than the bound, and
  neither does a whole submission that records anything.
\<close>

theorem history_bound:
  "(MAX_HISTORY_MESSAGES < length ms \<longrightarrow>
      length (history (foldl (\<lambda>s m. append_history P m s) st ms)) = MAX_HISTORY_MESSAGES
      \<and> history (foldl (\<lambda>s m. append_history P m s) st ms)
          = drop (length ms - MAX_HISTORY_MESSAGES) ms)
   \<and> length (history (append_history P m st)) \<le> MAX_HISTORY_MESSAGES
   \<and> (trim (userInput_value st) \<noteq> [] \<longrightarrow>
        length (history (fst (submit P r st))) \<le> MAX_HISTORY_MESSAGES)"
proof (intro conjI impI)
  assume long: "MAX_HISTORY_MESSAGES < length ms"
  then have ne: "ms \<noteq> []" by auto
  have eq: "history (foldl (\<lambda>s m. append_history P m s) st ms)
            = slice_last MAX_HISTORY_MESSAGES ms"
    using long by (simp add: history_foldl_append_history foldl_push_history [OF ne]
        slice_last_append_long)
  show "history (foldl (\<lambda>s m. append_history P m s) st ms)
          = drop (length ms - MAX_HISTORY_MESSAGES) ms"
    by (simp add: eq slice_last_def)
  show "length (history (foldl (\<lambda>s m. append_history P m s) st ms)) = MAX_HISTORY_MESSAGES"
    using long by (simp add: eq slice_last_def)
next
  show "length (history (append_history P m st)) \<le> MAX_HISTORY_MESSAGES"
    by (simp add: length_push_history)
next
  assume "trim (userInput_value st) \<noteq> []"
  then show "length (history (fst (submit P r st))) \<le> MAX_HISTORY_MESSAGES"
    by (rule length_history_submit)
qed

theorem history_bound_witness:
  "MAX_HISTORY_MESSAGES < length (map numbered [0..<23])
   \<and> length (history (foldl (\<lambda>s m. append_history (ref_platform True) m s) example_state
                (map numbered [0..<23]))) = MAX_HISTORY_MESSAGES
   \<and> history (foldl (\<lambda>s m. append_history (ref_platform True) m s) example_state
                (map numbered [0..<23])) = map numbered [3..<23]
   \<and> trim (userInput_value example_state) \<noteq> []
   \<and> length (history (fst (submit (ref_platform True) Rejected example_state))) \<le> MAX_HISTORY_MESSAGES"
proof -
  have long: "MAX_HISTORY_MESSAGES < length (map numbered [0..<23])"
    by (simp add: MAX_HISTORY_MESSAGES_def)
  have input: "trim (userInput_value example_state) \<noteq> []"
    by code_simp
  have d: "drop (length (map numbered [0..<23]) - MAX_HISTORY_MESSAGES) (map numbered [0..<23])
           = map numbered [3..<23]"
    by (simp add: MAX_HISTORY_MESSAGES_def drop_map)
  show ?thesis
    using history_bound [of "map numbered [0..<23]" "ref_platform True" example_state
        "numbered 0" Rejected] long input d
    by (simp add: MAX_HISTORY_MESSAGES_def)
qed

section \<open>Blank input\<close>

text \<open>
  C5. A submit event whose input trims to the empty string changes nothing: the handler
  returns before its first effect, so the history, the transcript, the list of requests
  issued and the persisted items are what they were.
\<close>

theorem empty_input_noop:
  "trim (userInput_value st) = [] \<Longrightarrow>
     submit_start P st = (NoOp, st) \<and> submit P r st = (st, None)
     \<and> history (fst (submit P r st)) = history st
     \<and> chatWindow (fst (submit P r st)) = chatWindow st
     \<and> requests (fst (submit P r st)) = requests st
     \<and> localStorage (fst (submit P r st)) = localStorage st"
  by (simp add: submit_def submit_start_def)

theorem empty_input_noop_witness:
  "trim (userInput_value (example_state\<lparr>userInput_value := [0x20, 0x09, 0x0A, 0x3000]\<rparr>)) = []
   \<and> submit (ref_platform True) (Response 200 (Body (lit ''{}'')))
        (example_state\<lparr>userInput_value := [0x20, 0x09, 0x0A, 0x3000]\<rparr>)
       = (example_state\<lparr>userInput_value := [0x20, 0x09, 0x0A, 0x3000]\<rparr>, None)"
proof -
  have blank: "trim (userInput_value (example_state\<lparr>userInput_value := [0x20, 0x09, 0x0A, 0x3000]\<rparr>)) = []"
    by (simp add: trim_def is_white_def)
  show ?thesis
    using empty_input_noop [OF blank] blank by simp
qed


lemma initial_history_not_array:
  "\<not> isArray (loadHistory P st) \<Longrightarrow> initial_history P st = []"
  by (cases "loadHistory P st") (simp_all add: initial_history_def)

section \<open>Loading the history\<close>

text \<open>
  C2. Whatever is stored under the history key, the history the page starts with is empty
  when the item is absent, when it does not parse as JSON, and when it parses to a value
  that is not an array; no exception reaches the caller, since the helper catches the
  parser's. In particular a non-array value that has been persisted under the key loads as
  the empty history. The platform's \<open>JSON.parse\<close> is taken to read the text \<open>[]\<close> as
  the empty array.
\<close>

theorem load_recovers:
  assumes "JSON_parse P (lit ''[]'') = Some (Arr [])"
  shows "(localStorage st HISTORY_KEY = None \<longrightarrow> initial_history P st = [])
       \<and> (localStorage st HISTORY_KEY = Some s \<and> JSON_parse P s = None
            \<longrightarrow> initial_history P st = [])
       \<and> (localStorage st HISTORY_KEY = Some s \<and> JSON_parse P s = Some v \<and> \<not> isArray v
            \<longrightarrow> initial_history P st = [])
       \<and> (\<not> isArray v \<and> JSON_parse P (JSON_stringify P v) = Some v
            \<longrightarrow> initial_history P
                  (st\<lparr>localStorage := (localStorage st)(HISTORY_KEY \<mapsto> JSON_stringify P v)\<rparr>) = [])"
proof (intro conjI impI)
  assume "localStorage st HISTORY_KEY = None"
  then show "initial_history P st = []"
    using assms by (simp add: initial_history_def loadHistory_def)
next
  assume "localStorage st HISTORY_KEY = Some s \<and> JSON_parse P s = None"
  then show "initial_history P st = []"
    using assms by (simp add: initial_history_def loadHistory_def)
next
  assume a: "localStorage st HISTORY_KEY = Some s \<and> JSON_parse P s = Some v \<and> \<not> isArray v"
  show "initial_history P st = []"
  proof (cases "s = []")
    case True
    with a assms show ?thesis by (simp add: initial_history_def loadHistory_def)
  next
    case False
    with a have "loadHistory P st = v" by (simp add: loadHistory_def)
    with a show ?thesis by (simp add: initial_history_not_array)
  qed
next
  let ?st = "st\<lparr>localStorage := (localStorage st)(HISTORY_KEY \<mapsto> JSON_stringify P v)\<rparr>"
  assume a: "\<not> isArray v \<and> JSON_parse P (JSON_stringify P v) = Some v"
  show "initial_history P ?st = []"
  proof (cases "JSON_stringify P v = []")
    case True
    with assms show ?thesis by (simp add: initial_history_def loadHistory_def)
  next
    case False
    with a have "loadHistory P ?st = v" by (simp add: loadHistory_def)
    with a show ?thesis by (simp add: initial_history_not_array)
  qed
qed

theorem load_recovers_witness:
  "JSON_parse (ref_platform True) (lit ''[]'') = Some (Arr [])
   \<and> localStorage example_state HISTORY_KEY = None
   \<and> initial_history (ref_platform True) example_state = []
   \<and> JSON_parse (ref_platform True) (lit ''[{\"role\":'') = None
   \<and> initial_history (ref_platform True)
        (example_state\<lparr>localStorage := [HISTORY_KEY \<mapsto> lit ''[{\"role\":'']\<rparr>) = []
   \<and> localStorage corrupt_state HISTORY_KEY = Some (lit ''{\"role\":\"user\"}'')
   \<and> JSON_parse (ref_platform True) (lit ''{\"role\":\"user\"}'')
       = Some (Obj [(lit ''role'', Str (lit ''user''))])
   \<and> \<not> isArray (Obj [(lit ''role'', Str (lit ''user''))] :: jsstring jsval)
   \<and> initial_history (ref_platform True) corrupt_state = []
   \<and> JSON_parse (ref_platform True)
         (JSON_stringify (ref_platform True) (Obj [(lit ''role'', Str (lit ''user''))]))
       = Some (Obj [(lit ''role'', Str (lit ''user''))])
   \<and> initial_history (ref_platform True)
        (corrupt_state\<lparr>localStorage := (localStorage corrupt_state)
           (HISTORY_KEY \<mapsto>
              JSON_stringify (ref_platform True) (Obj [(lit ''role'', Str (lit ''user''))]))\<rparr>)
       = []"
proof -
  have e: "JSON_parse (ref_platform True) (lit ''[]'') = Some (Arr [])"
    by code_simp
  have a: "localStorage example_state HISTORY_KEY = None"
    by (simp add: example_state_def HISTORY_KEY_def NAME_KEY_def lit_def)
  have u: "JSON_parse (ref_platform True) (lit ''[{\"role\":'') = None"
    by code_simp
  have k: "localStorage corrupt_state HISTORY_KEY = Some (lit ''{\"role\":\"user\"}'')"
    by (simp add: corrupt_state_def)
  have p: "JSON_parse (ref_platform True) (lit ''{\"role\":\"user\"}'')
           = Some (Obj [(lit ''role'', Str (lit ''user''))])"
    by code_simp
  have q: "JSON_parse (ref_platform True)
             (JSON_stringify (ref_platform True) (Obj [(lit ''role'', Str (lit ''user''))]))
           = Some (Obj [(lit ''role'', Str (lit ''user''))])"
    by code_simp
  have absent: "initial_history (ref_platform True) example_state = []"
    using load_recovers [where P = "ref_platform True" and st = example_state, OF e] a
    by simp
  have unparseable: "initial_history (ref_platform True)
        (example_state\<lparr>localStorage := [HISTORY_KEY \<mapsto> lit ''[{\"role\":'']\<rparr>) = []"
    using load_recovers [where P = "ref_platform True"
        and st = "example_state\<lparr>localStorage := [HISTORY_KEY \<mapsto> lit ''[{\"role\":'']\<rparr>"
        and s = "lit ''[{\"role\":''", OF e] u
    by simp
  have not_array: "initial_history (ref_platform True) corrupt_state = []
     \<and> initial_history (ref_platform True)
        (corrupt_state\<lparr>localStorage := (localStorage corrupt_state)
           (HISTORY_KEY \<mapsto>
              JSON_stringify (ref_platform True) (Obj [(lit ''role'', Str (lit ''user''))]))\<rparr>)
       = []"
    using load_recovers [where P = "ref_platform True" and st = corrupt_state
        and s = "lit ''{\"role\":\"user\"}''"
        and v = "Obj [(lit ''role'', Str (lit ''user''))]", OF e] k p q
    by simp
  show ?thesis
    using e a u k p q absent unparseable not_array by simp
qed




lemma set_push_history: "set (push_history h m) \<subseteq> insert m (set h)"
  using set_drop_subset [of "length (h @ [m]) - MAX_HISTORY_MESSAGES" "h @ [m]"]
  by (auto simp add: push_history_def slice_last_def Let_def)


section \<open>Reloading after an append\<close>




lemma is_message_msg_obj [simp]: "is_message (msg_obj r c)"
  by (simp add: msg_obj_def)


lemma msg_obj_eq_iff [simp]: "msg_obj r c = msg_obj r' c' \<longleftrightarrow> r = r' \<and> c = c'"
  by (simp add: msg_obj_def)




section \<open>The outbound message list\<close>



lemma chatWindow_on_catch:
  "chatWindow (on_catch el e st)
     = filter (\<lambda>x. eid x \<noteq> el) (chatWindow st)
       @ [ai_bubble (created st) (lit ''Network error. Check console.'')]"
  by (simp add: on_catch_def Let_def remove_def appendMessage_def ai_bubble_def)

lemma chatWindow_on_catch_remove:
  "chatWindow (on_catch el e (remove el st))
     = filter (\<lambda>x. eid x \<noteq> el) (chatWindow st)
       @ [ai_bubble (created st) (lit ''Network error. Check console.'')]"
  by (simp add: chatWindow_on_catch) (simp add: remove_def)

lemma chatWindow_ai_message:
  "chatWindow (appendMessage (Str t) (lit ''ai'') (remove el st))
     = filter (\<lambda>x. eid x \<noteq> el) (chatWindow st) @ [ai_bubble (created st) t]"
  by (simp add: remove_def appendMessage_def ai_bubble_def)

lemma chatWindow_console_update [simp]: "chatWindow (st\<lparr>console := c\<rparr>) = chatWindow st"
  by simp

lemma chatWindow_submit_finish:
  "chatWindow (submit_finish P el r st)
     = filter (\<lambda>x. eid x \<noteq> el) (chatWindow st) @ [ai_bubble (created st) (rendered_text P r)]"
proof (cases r)
  case Rejected
  then show ?thesis by (simp add: submit_finish_def rendered_text_def chatWindow_on_catch)
next
  case (Response status b)
  show ?thesis
  proof (cases b)
    case Unreadable
    with Response show ?thesis
      by (simp add: submit_finish_def rendered_text_def Let_def chatWindow_on_catch_remove)
  next
    case (Body t)
    show ?thesis
    proof (cases "resp_ok status")
      case False
      with Response Body show ?thesis
        by (simp add: submit_finish_def rendered_text_def Let_def chatWindow_ai_message)
    next
      case True
      with Response Body show ?thesis
        by (simp add: submit_finish_def rendered_text_def Let_def chatWindow_ai_message
              chatWindow_on_catch_remove split: option.splits sum.splits)
    qed
  qed
qed

lemma submit_start_Pending:
  "fst (submit_start P st) = Pending el \<Longrightarrow> trim (userInput_value st) \<noteq> [] \<and> el = Suc (created st)"
  by (auto simp add: submit_start_def Let_def appendTypingIndicator_def appendMessage_def
      setLatestQuestion_def split: if_splits sum.splits)

lemma submit_start_transcript:
  "trim (userInput_value st) \<noteq> [] \<Longrightarrow>
     \<exists>t. chatWindow (snd (submit_start P st))
           = chatWindow st @ [user_bubble (created st) (trim (userInput_value st)), t]
         \<and> eid t = Suc (created st)"
  by (simp add: submit_start_def Let_def appendTypingIndicator_def appendMessage_def
      setLatestQuestion_def user_bubble_def split: sum.splits)

lemma created_submit_start:
  "trim (userInput_value st) \<noteq> [] \<Longrightarrow> created (snd (submit_start P st)) = Suc (Suc (created st))"
  by (simp add: submit_start_def Let_def appendTypingIndicator_def appendMessage_def
      setLatestQuestion_def split: sum.splits)

lemma remove_remove: "remove el (remove el s) = remove el s"
  by (simp add: remove_def)

lemma remove_absent: "el \<notin> eid ` set (chatWindow s) \<Longrightarrow> remove el s = s"
proof -
  assume "el \<notin> eid ` set (chatWindow s)"
  then have "filter (\<lambda>x. eid x \<noteq> el) (chatWindow s) = chatWindow s"
    by (auto simp add: filter_id_conv)
  then show ?thesis by (simp add: remove_def)
qed

section \<open>The typing indicator\<close>

text \<open>
  C8. Whenever a submission has issued its request, the typing indicator is in the
  transcript while the request is pending, and it is gone once the handler has finished,
  however the request settled: a reply, an empty reply, an error status, a failed read or a
  rejected request. What remains is the transcript from before the indicator, with one
  more bubble; on a page whose element handles are distinct nothing else has gone.
  Removing an element twice is removing it once, and removing an absent element changes
  nothing.
\<close>

theorem typing_indicator_removed:
  assumes "fst (submit_start P st) = Pending el"
  shows "el \<in> eid ` set (chatWindow (snd (submit_start P st)))
       \<and> submit P r st = (submit_finish P el r (snd (submit_start P st)), None)
       \<and> el \<notin> eid ` set (chatWindow (fst (submit P r st)))
       \<and> ((\<forall>x \<in> set (chatWindow st). eid x < created st) \<longrightarrow>
            chatWindow (fst (submit P r st))
              = chatWindow st @ [user_bubble (created st) (trim (userInput_value st)),
                                 ai_bubble (Suc (Suc (created st))) (rendered_text P r)])
       \<and> remove el (remove el s) = remove el s
       \<and> (el \<notin> eid ` set (chatWindow s) \<longrightarrow> remove el s = s)"
proof -
  let ?st' = "snd (submit_start P st)"
  from assms have ne: "trim (userInput_value st) \<noteq> []" and el: "el = Suc (created st)"
    using submit_start_Pending by blast+
  from ne obtain t where cw: "chatWindow ?st'
      = chatWindow st @ [user_bubble (created st) (trim (userInput_value st)), t]"
    and t: "eid t = Suc (created st)"
    using submit_start_transcript by blast
  have fin: "chatWindow (submit_finish P el r ?st')
      = filter (\<lambda>x. eid x \<noteq> el) (chatWindow ?st')
        @ [ai_bubble (created ?st') (rendered_text P r)]"
    by (rule chatWindow_submit_finish)
  have cr: "created ?st' = Suc (Suc (created st))"
    using ne by (rule created_submit_start)
  have present: "el \<in> eid ` set (chatWindow ?st')"
    using cw t el by force
  have gone: "el \<notin> eid ` set (chatWindow (submit_finish P el r ?st'))"
    using fin cr el by (auto simp add: ai_bubble_def)
  have whole: "submit P r st = (submit_finish P el r ?st', None)"
    using assms by (cases "submit_start P st") (simp add: submit_def)
  have exact: "chatWindow (fst (submit P r st))
                   = chatWindow st @ [user_bubble (created st) (trim (userInput_value st)),
                                      ai_bubble (Suc (Suc (created st))) (rendered_text P r)]"
    if distinct: "\<forall>x \<in> set (chatWindow st). eid x < created st"
  proof -
    from distinct have "filter (\<lambda>x. eid x \<noteq> el) (chatWindow st) = chatWindow st"
      using el by (auto simp add: filter_id_conv)
    then have "filter (\<lambda>x. eid x \<noteq> el) (chatWindow ?st')
        = chatWindow st @ [user_bubble (created st) (trim (userInput_value st))]"
      using cw t el by (simp add: user_bubble_def)
    with fin cr whole show ?thesis by simp
  qed
  have gone': "el \<notin> eid ` set (chatWindow (fst (submit P r st)))"
    using whole gone by simp
  from present gone' whole exact remove_remove [of el s] remove_absent [of el s]
  show ?thesis by blast
qed

theorem typing_indicator_removed_witness:
  "fst (submit_start (ref_platform True) example_state) = Pending 2
   \<and> 2 \<in> eid ` set (chatWindow (snd (submit_start (ref_platform True) example_state)))
   \<and> 2 \<notin> eid ` set (chatWindow (fst (submit (ref_platform True) Rejected example_state)))
   \<and> list_all (\<lambda>x. eid x < created example_state) (chatWindow example_state)
   \<and> chatWindow (fst (submit (ref_platform True) Rejected example_state))
       = chatWindow example_state
         @ [user_bubble 1 (lit ''Which serum?''),
            ai_bubble 3 (lit ''Network error. Check console.'')]
   \<and> 2 \<notin> eid ` set (chatWindow example_state)
   \<and> remove 2 example_state = example_state"
proof -
  have p: "fst (submit_start (ref_platform True) example_state) = Pending 2"
    by code_simp
  have d: "\<forall>x \<in> set (chatWindow example_state). eid x < created example_state"
    by (simp add: example_state_def)
  have a: "2 \<notin> eid ` set (chatWindow example_state)"
    by (simp add: example_state_def)
  have t: "trim (userInput_value example_state) = lit ''Which serum?''"
    by code_simp
  have c: "created example_state = 1"
    by (simp add: example_state_def)
  note T = typing_indicator_removed [OF p, of Rejected example_state]
  from T have present: "2 \<in> eid ` set (chatWindow (snd (submit_start (ref_platform True) example_state)))"
    by (rule conjunct1)
  from T have gone: "2 \<notin> eid ` set (chatWindow (fst (submit (ref_platform True) Rejected example_state)))"
    by blast
  from T d have "chatWindow (fst (submit (ref_platform True) Rejected example_state))
       = chatWindow example_state
         @ [user_bubble (created example_state) (trim (userInput_value example_state)),
            ai_bubble (Suc (Suc (created example_state)))
              (rendered_text (ref_platform True) Rejected)]"
    by blast
  then have exact: "chatWindow (fst (submit (ref_platform True) Rejected example_state))
       = chatWindow example_state
         @ [user_bubble 1 (lit ''Which serum?''),
            ai_bubble 3 (lit ''Network error. Check console.'')]"
    by (simp add: t c rendered_text_def eval_nat_numeral)
  from T a have idle: "remove 2 example_state = example_state"
    by blast
  from d have d': "list_all (\<lambda>x. eid x < created example_state) (chatWindow example_state)"
    by (simp add: list_all_iff)
  from p present gone d' exact a idle show ?thesis
    by blast
qed


lemma getUserName_store:
  "getUserName P answer st = (Inr name, st1) \<Longrightarrow> localStorage st1 NAME_KEY = Some name"
  by (auto simp add: getUserName_def Let_def split: option.splits if_splits)

lemma initial_history_userName [simp]:
  "initial_history P (st\<lparr>userName := n\<rparr>) = initial_history P st"
  by (simp add: initial_history_def loadHistory_def)

lemma render_saved_keeps:
  "history (fst (render_saved ms st)) = history st
   \<and> localStorage (fst (render_saved ms st)) = localStorage st"
  by (induction ms arbitrary: st) (simp_all add: appendMessage_def)

lemma init_first_visit:
  assumes "getUserName P answer st = (Inr name, st1)" and "initial_history P st1 = []"
  shows "init P answer st =
           (saveHistory P [msg_obj (Str (lit ''assistant'')) (Str (welcome_text name))]
              (st1\<lparr>userName := name,
                   chatWindow := chatWindow st1 @ [ai_bubble (created st1) (welcome_text name)],
                   created := Suc (created st1),
                   history := [msg_obj (Str (lit ''assistant'')) (Str (welcome_text name))]\<rparr>),
            None)"
  using assms by (simp add: init_def Let_def appendMessage_def ai_bubble_def)

lemma init_returning:
  assumes "getUserName P answer st = (Inr name, st1)" and "initial_history P st1 \<noteq> []"
  shows "init P answer st
           = render_saved (initial_history P st1)
               (st1\<lparr>userName := name, history := initial_history P st1\<rparr>)"
  using assms by (simp add: init_def Let_def)


lemma welcome_text_not_Nil: "welcome_text name \<noteq> []"
  by (simp add: welcome_text_def lit_def)

section \<open>The welcome message\<close>


lemma getUserName_example:
  "getUserName (ref_platform w) None example_state = (Inr (lit ''Ada''), example_state)"
  by (simp add: getUserName_def example_state_def lit_def)


lemma initial_history_example: "initial_history (ref_platform w) example_state = []"
proof -
  have "localStorage example_state HISTORY_KEY = None"
    by (simp add: example_state_def HISTORY_KEY_def NAME_KEY_def lit_def)
  moreover have "ref_parse (lit ''[]'') = Some (Arr [])"
    by code_simp
  ultimately show ?thesis
    by (simp add: initial_history_def loadHistory_def ref_platform_def)
qed




lemma accepted_reply_Some:
  "accepted_reply P r = Some rp \<Longrightarrow>
     rp \<noteq> [] \<and> (\<exists>status t data. r = Response status (Body t) \<and> resp_ok status
                  \<and> JSON_parse P t = Some data \<and> reply data = Inr (Some rp))"
  by (auto simp add: accepted_reply_def
      split: fetch_result.splits response_body.splits option.splits sum.splits if_splits)

lemma reply_trimmed: "reply data = Inr (Some rp) \<Longrightarrow> \<exists>s. rp = trim s"
  by (auto simp add: reply_def Let_def split: if_splits jsval.splits)

lemma valid_entry_user [simp]: "valid_entry (msg_obj (Str (lit ''user'')) (Str c)) \<longleftrightarrow> c \<noteq> []"
  by (simp add: msg_obj_def)

lemma valid_entry_assistant [simp]:
  "valid_entry (msg_obj (Str (lit ''assistant'')) (Str c)) \<longleftrightarrow> c \<noteq> []"
  by (simp add: msg_obj_def)

lemma set_push_history_valid:
  "set h \<subseteq> A \<union> {m. valid_entry m} \<Longrightarrow> valid_entry m
     \<Longrightarrow> set (push_history h m) \<subseteq> A \<union> {m. valid_entry m}"
  using set_push_history [of h m] by auto

lemma history_submit_cases:
  assumes "trim (userInput_value st) \<noteq> []"
  shows "history (fst (submit P r st))
           = push_history (history st)
               (msg_obj (Str (lit ''user'')) (Str (trim (userInput_value st))))
       \<or> (\<exists>rp. accepted_reply P r = Some rp
             \<and> history (fst (submit P r st))
                 = push_history
                     (push_history (history st)
                        (msg_obj (Str (lit ''user'')) (Str (trim (userInput_value st)))))
                     (msg_obj (Str (lit ''assistant'')) (Str rp)))"
proof -
  obtain k st' where start: "submit_start P st = (k, st')"
    by (cases "submit_start P st")
  with assms have "history st' = push_history (history st)
               (msg_obj (Str (lit ''user'')) (Str (trim (userInput_value st))))"
    using history_submit_start [of P st] by simp
  then show ?thesis
    by (simp add: history_submit start split: started.splits option.splits)
qed

section \<open>What the script records\<close>

text \<open>
  C10. Every entry that a submission or the start of the page puts into the history is a
  message with role \<open>user\<close> or \<open>assistant\<close> and a content that is a non-empty string. A
  submission records nothing for blank input; otherwise it records the user message whose
  content is the trimmed input and, only when the settled request carries a reply whose
  trimmed text is not empty, the assistant message with that trimmed text. The start of the
  page keeps the loaded history, or records the welcome message. So no entry with an empty
  content or with the role \<open>system\<close> is ever added.
\<close>

theorem recorded_entries_valid:
  fixes st :: "'n state"
  shows
  "set (history (fst (submit P r st))) \<subseteq> set (history st) \<union> {m. valid_entry m}
   \<and> (trim (userInput_value st) = [] \<longrightarrow> history (fst (submit P r st)) = history st)
   \<and> (trim (userInput_value st) \<noteq> [] \<longrightarrow>
        history (fst (submit P r st))
          = push_history (history st)
              (msg_obj (Str (lit ''user'')) (Str (trim (userInput_value st))))
        \<or> (\<exists>rp s. rp = trim s \<and> rp \<noteq> [] \<and> accepted_reply P r = Some rp
              \<and> history (fst (submit P r st))
                  = push_history
                      (push_history (history st)
                         (msg_obj (Str (lit ''user'')) (Str (trim (userInput_value st)))))
                      (msg_obj (Str (lit ''assistant'')) (Str rp))))
   \<and> (getUserName P answer st = (Inr name, st1) \<longrightarrow>
        history (fst (init P answer st)) = initial_history P st1
        \<or> history (fst (init P answer st))
             = [msg_obj (Str (lit ''assistant'')) (Str (welcome_text name))]
           \<and> valid_entry (msg_obj (Str (lit ''assistant'')) (Str (welcome_text name)) :: 'n jsval))"
proof -
  let ?u = "msg_obj (Str (lit ''user'')) (Str (trim (userInput_value st))) :: 'n jsval"
  have blank: "history (fst (submit P r st)) = history st" if "trim (userInput_value st) = []"
    using that by (simp add: submit_noop)
  have cases: "history (fst (submit P r st)) = push_history (history st) ?u
        \<or> (\<exists>rp s. rp = trim s \<and> rp \<noteq> [] \<and> accepted_reply P r = Some rp
              \<and> history (fst (submit P r st))
                  = push_history (push_history (history st) ?u)
                      (msg_obj (Str (lit ''assistant'')) (Str rp)))"
    if ne: "trim (userInput_value st) \<noteq> []"
  proof -
    from history_submit_cases [OF ne, of P r]
    show ?thesis
    proof
      assume "history (fst (submit P r st)) = push_history (history st) ?u"
      then show ?thesis by (rule disjI1)
    next
      assume "\<exists>rp. accepted_reply P r = Some rp
             \<and> history (fst (submit P r st))
                 = push_history (push_history (history st) ?u)
                     (msg_obj (Str (lit ''assistant'')) (Str rp))"
      then obtain rp where a: "accepted_reply P r = Some rp"
        and h: "history (fst (submit P r st))
                 = push_history (push_history (history st) ?u)
                     (msg_obj (Str (lit ''assistant'')) (Str rp))"
        by blast
      from accepted_reply_Some [OF a] obtain data :: "'n jsval"
        where "rp \<noteq> []" "reply data = Inr (Some rp)"
        by blast
      moreover from this obtain s where "rp = trim s"
        using reply_trimmed by blast
      ultimately show ?thesis
        using a h by blast
    qed
  qed
  have sub: "set (history (fst (submit P r st))) \<subseteq> set (history st) \<union> {m. valid_entry m}"
  proof (cases "trim (userInput_value st) = []")
    case True
    then show ?thesis by (simp add: blank)
  next
    case False
    then have u: "valid_entry ?u" by simp
    have one: "set (push_history (history st) ?u) \<subseteq> set (history st) \<union> {m. valid_entry m}"
      using u by (intro set_push_history_valid) auto
    from cases [OF False] show ?thesis
    proof
      assume "history (fst (submit P r st)) = push_history (history st) ?u"
      with one show ?thesis by simp
    next
      assume "\<exists>rp s. rp = trim s \<and> rp \<noteq> [] \<and> accepted_reply P r = Some rp
              \<and> history (fst (submit P r st))
                  = push_history (push_history (history st) ?u)
                      (msg_obj (Str (lit ''assistant'')) (Str rp))"
      then obtain rp where rp: "rp \<noteq> []"
        and h: "history (fst (submit P r st))
                  = push_history (push_history (history st) ?u)
                      (msg_obj (Str (lit ''assistant'')) (Str rp))"
        by blast
      from rp have "valid_entry (msg_obj (Str (lit ''assistant'')) (Str rp) :: 'n jsval)" by simp
      with one h show ?thesis
        by (simp add: set_push_history_valid)
    qed
  qed
  have start: "history (fst (init P answer st)) = initial_history P st1
        \<or> history (fst (init P answer st))
             = [msg_obj (Str (lit ''assistant'')) (Str (welcome_text name))]
           \<and> valid_entry (msg_obj (Str (lit ''assistant'')) (Str (welcome_text name)) :: 'n jsval)"
    if g: "getUserName P answer st = (Inr name, st1)"
  proof (cases "initial_history P st1 = []")
    case True
    then show ?thesis
      using init_first_visit [OF g True] by (simp add: welcome_text_not_Nil)
  next
    case False
    then show ?thesis
      using init_returning [OF g False] by (simp add: render_saved_keeps)
  qed
  show ?thesis
  proof (intro conjI impI)
    show "set (history (fst (submit P r st))) \<subseteq> set (history st) \<union> {m. valid_entry m}"
      by (rule sub)
  next
    assume "trim (userInput_value st) = []"
    then show "history (fst (submit P r st)) = history st"
      by (rule blank)
  next
    assume "trim (userInput_value st) \<noteq> []"
    then show "history (fst (submit P r st)) = push_history (history st) ?u
        \<or> (\<exists>rp s. rp = trim s \<and> rp \<noteq> [] \<and> accepted_reply P r = Some rp
              \<and> history (fst (submit P r st))
                  = push_history (push_history (history st) ?u)
                      (msg_obj (Str (lit ''assistant'')) (Str rp)))"
      by (rule cases)
  next
    assume "getUserName P answer st = (Inr name, st1)"
    then show "history (fst (init P answer st)) = initial_history P st1
        \<or> history (fst (init P answer st))
             = [msg_obj (Str (lit ''assistant'')) (Str (welcome_text name))]
           \<and> valid_entry (msg_obj (Str (lit ''assistant'')) (Str (welcome_text name)) :: 'n jsval)"
      by (rule start)
  qed
qed

lemma serum_reply:
  "accepted_reply (ref_platform w) (Response 200 (Body serum_body)) = Some (lit ''Try the serum.'')"
  by code_simp

lemma example_input: "trim (userInput_value example_state) = lit ''Which serum?''"
  by code_simp

lemma example_pending: "fst (submit_start (ref_platform True) example_state) = Pending 2"
  by code_simp

theorem recorded_entries_valid_witness:
  "trim (userInput_value example_state) \<noteq> []
   \<and> getUserName (ref_platform True) None example_state = (Inr (lit ''Ada''), example_state)
   \<and> set (history (fst (submit (ref_platform True) (Response 200 (Body serum_body)) example_state)))
       \<subseteq> set (history example_state) \<union> {m. valid_entry m}
   \<and> history (fst (submit (ref_platform True) (Response 200 (Body serum_body)) example_state))
       = [msg_obj (Str (lit ''assistant'')) (Str (lit ''Hi Ada!'')),
          msg_obj (Str (lit ''user'')) (Str (lit ''Which serum?'')),
          msg_obj (Str (lit ''assistant'')) (Str (lit ''Try the serum.''))]
   \<and> history (fst (init (ref_platform True) None example_state))
       = [msg_obj (Str (lit ''assistant'')) (Str (welcome_text (lit ''Ada'')))]"
proof -
  note T = recorded_entries_valid [of "ref_platform True" "Response 200 (Body serum_body)"
      example_state None "lit ''Ada''" example_state]
  have ne: "trim (userInput_value example_state) \<noteq> []"
    by (simp add: example_input lit_def)
  have g: "getUserName (ref_platform True) None example_state = (Inr (lit ''Ada''), example_state)"
    by (rule getUserName_example)
  from T have sub: "set (history (fst (submit (ref_platform True) (Response 200 (Body serum_body))
      example_state))) \<subseteq> set (history example_state) \<union> {m. valid_entry m}"
    by (rule conjunct1)
  have "history (fst (submit (ref_platform True) (Response 200 (Body serum_body)) example_state))
          = push_history (history (snd (submit_start (ref_platform True) example_state)))
              (msg_obj (Str (lit ''assistant'')) (Str (lit ''Try the serum.'')))"
    using example_pending
    by (cases "submit_start (ref_platform True) example_state")
       (simp add: history_submit serum_reply)
  then have h: "history (fst (submit (ref_platform True) (Response 200 (Body serum_body)) example_state))
       = [msg_obj (Str (lit ''assistant'')) (Str (lit ''Hi Ada!'')),
          msg_obj (Str (lit ''user'')) (Str (lit ''Which serum?'')),
          msg_obj (Str (lit ''assistant'')) (Str (lit ''Try the serum.''))]"
    using ne
    by (simp add: history_submit_start example_input)
       (simp add: example_state_def push_history_def Let_def MAX_HISTORY_MESSAGES_def)
  from T g have "history (fst (init (ref_platform True) None example_state))
          = initial_history (ref_platform True) example_state
        \<or> history (fst (init (ref_platform True) None example_state))
             = [msg_obj (Str (lit ''assistant'')) (Str (welcome_text (lit ''Ada'')))]"
    by blast
  moreover have "history (fst (init (ref_platform True) None example_state)) \<noteq> []"
    using init_first_visit [OF g initial_history_example] by simp
  ultimately have i: "history (fst (init (ref_platform True) None example_state))
             = [msg_obj (Str (lit ''assistant'')) (Str (welcome_text (lit ''Ada'')))]"
    by (auto simp add: initial_history_example)
  from ne g sub h i show ?thesis by blast
qed

lemma submit_Pending:
  "fst (submit_start P st) = Pending el \<Longrightarrow>
     submit P r st = (submit_finish P el r (snd (submit_start P st)), None)"
  by (cases "submit_start P st") (simp add: submit_def)

lemma chatWindow_submit:
  assumes "fst (submit_start P st) = Pending el"
  shows "chatWindow (fst (submit P r st))
           = filter (\<lambda>x. eid x \<noteq> el) (chatWindow (snd (submit_start P st)))
             @ [ai_bubble (Suc (Suc (created st))) (rendered_text P r)]"
proof -
  from assms have "trim (userInput_value st) \<noteq> []"
    using submit_start_Pending by blast
  then have "created (snd (submit_start P st)) = Suc (Suc (created st))"
    by (rule created_submit_start)
  then show ?thesis
    by (simp add: submit_Pending [OF assms] chatWindow_submit_finish)
qed

lemma indicator_gone:
  assumes "fst (submit_start P st) = Pending el"
  shows "el \<notin> eid ` set (chatWindow (fst (submit P r st)))"
proof -
  from assms have "el = Suc (created st)"
    using submit_start_Pending by blast
  then show ?thesis
    by (auto simp add: chatWindow_submit [OF assms] ai_bubble_def)
qed

lemma history_submit_unaccepted:
  assumes "fst (submit_start P st) = Pending el" and "accepted_reply P r = None"
  shows "history (fst (submit P r st))
           = push_history (history st)
               (msg_obj (Str (lit ''user'')) (Str (trim (userInput_value st))))"
proof -
  from assms(1) have "trim (userInput_value st) \<noteq> []"
    using submit_start_Pending by blast
  then show ?thesis
    using history_submit_start [of P st] assms(2)
    by (simp add: submit_Pending [OF assms(1)] history_submit_finish)
qed

lemma length_push_history_short:
  "length h < MAX_HISTORY_MESSAGES \<Longrightarrow> length (push_history h m) = Suc (length h)"
  by (simp add: push_history_def Let_def)

section \<open>A response with an error status\<close>

text \<open>
  C6, as the script has it. Take a submission that issued its request and a response whose
  status is not a success. Whatever the body, the typing indicator is gone afterwards and
  the history has gained the user message and nothing else (one entry more, as long as the
  bound is not reached). When the body can be read, the bubble added to the transcript is
  the server-error notice; when reading the body fails, the handler's catch branch adds the
  network-error notice instead.
\<close>

theorem error_status_notice:
  assumes "fst (submit_start P st) = Pending el" and "\<not> resp_ok status"
  shows "el \<notin> eid ` set (chatWindow (fst (submit P (Response status b) st)))
       \<and> history (fst (submit P (Response status b) st))
           = push_history (history st)
               (msg_obj (Str (lit ''user'')) (Str (trim (userInput_value st))))
       \<and> (length (history st) < MAX_HISTORY_MESSAGES \<longrightarrow>
            length (history (fst (submit P (Response status b) st))) = Suc (length (history st)))
       \<and> chatWindow (fst (submit P (Response status (Body t)) st))
           = filter (\<lambda>x. eid x \<noteq> el) (chatWindow (snd (submit_start P st)))
             @ [ai_bubble (Suc (Suc (created st))) (lit ''Server error. See console.'')]
       \<and> chatWindow (fst (submit P (Response status Unreadable) st))
           = filter (\<lambda>x. eid x \<noteq> el) (chatWindow (snd (submit_start P st)))
             @ [ai_bubble (Suc (Suc (created st))) (lit ''Network error. Check console.'')]"
proof -
  have none: "accepted_reply P (Response status b) = None"
    using assms(2) by (simp add: accepted_reply_def split: response_body.splits)
  have h: "history (fst (submit P (Response status b) st))
           = push_history (history st)
               (msg_obj (Str (lit ''user'')) (Str (trim (userInput_value st))))"
    by (rule history_submit_unaccepted [OF assms(1) none])
  have t1: "rendered_text P (Response status (Body t)) = lit ''Server error. See console.''"
    using assms(2) by (simp add: rendered_text_def)
  have t2: "rendered_text P (Response status Unreadable) = lit ''Network error. Check console.''"
    by (simp add: rendered_text_def)
  show ?thesis
    using indicator_gone [OF assms(1), of "Response status b"] h
      chatWindow_submit [OF assms(1), of "Response status (Body t)"]
      chatWindow_submit [OF assms(1), of "Response status Unreadable"]
    by (simp add: t1 t2 length_push_history_short)
qed

lemma example_transcript:
  "filter (\<lambda>x. eid x \<noteq> 2) (chatWindow (snd (submit_start (ref_platform True) example_state)))
     = chatWindow example_state @ [user_bubble 1 (lit ''Which serum?'')]"
proof -
  have ne: "trim (userInput_value example_state) \<noteq> []"
    by (simp add: example_input lit_def)
  from submit_start_transcript [OF ne, of "ref_platform True"]
  obtain t where "chatWindow (snd (submit_start (ref_platform True) example_state))
           = chatWindow example_state @ [user_bubble (created example_state) (trim (userInput_value example_state)), t]"
    and "eid t = Suc (created example_state)"
    by blast
  then show ?thesis
    by (simp add: example_input) (simp add: example_state_def user_bubble_def)
qed

theorem error_status_notice_witness:
  "fst (submit_start (ref_platform True) example_state) = Pending 2
   \<and> \<not> resp_ok 500
   \<and> 2 \<notin> eid ` set (chatWindow (fst (submit (ref_platform True)
                         (Response 500 (Body html_body)) example_state)))
   \<and> history (fst (submit (ref_platform True) (Response 500 (Body html_body)) example_state))
       = [msg_obj (Str (lit ''assistant'')) (Str (lit ''Hi Ada!'')),
          msg_obj (Str (lit ''user'')) (Str (lit ''Which serum?''))]
   \<and> chatWindow (fst (submit (ref_platform True) (Response 500 (Body html_body)) example_state))
       = chatWindow example_state
         @ [user_bubble 1 (lit ''Which serum?''), ai_bubble 3 (lit ''Server error. See console.'')]"
proof -
  have s: "\<not> resp_ok 500"
    by (simp add: resp_ok_def)
  note T = error_status_notice [OF example_pending s, of "Body html_body" html_body]
  from T have gone: "2 \<notin> eid ` set (chatWindow (fst (submit (ref_platform True)
                         (Response 500 (Body html_body)) example_state)))"
    by (rule conjunct1)
  from T have "history (fst (submit (ref_platform True) (Response 500 (Body html_body)) example_state))
           = push_history (history example_state)
               (msg_obj (Str (lit ''user'')) (Str (trim (userInput_value example_state))))"
    by blast
  then have h: "history (fst (submit (ref_platform True) (Response 500 (Body html_body)) example_state))
       = [msg_obj (Str (lit ''assistant'')) (Str (lit ''Hi Ada!'')),
          msg_obj (Str (lit ''user'')) (Str (lit ''Which serum?''))]"
    by (simp add: example_input)
       (simp add: example_state_def push_history_def Let_def MAX_HISTORY_MESSAGES_def)
  from T have "chatWindow (fst (submit (ref_platform True) (Response 500 (Body html_body)) example_state))
           = filter (\<lambda>x. eid x \<noteq> 2) (chatWindow (snd (submit_start (ref_platform True) example_state)))
             @ [ai_bubble (Suc (Suc (created example_state))) (lit ''Server error. See console.'')]"
    by blast
  then have c: "chatWindow (fst (submit (ref_platform True) (Response 500 (Body html_body)) example_state))
       = chatWindow example_state
         @ [user_bubble 1 (lit ''Which serum?''), ai_bubble 3 (lit ''Server error. See console.'')]"
    by (simp add: example_transcript) (simp add: example_state_def eval_nat_numeral)
  from example_pending s gone h c show ?thesis by blast
qed

text \<open>
  As the claim states it, C6 has the server-error notice for every response with an error
  status. For a response with status 500 whose body cannot be read, the transcript ends
  with the network-error notice, and holds no server-error notice.
\<close>

theorem error_status_unreadable_body:
  "\<not> resp_ok 500
   \<and> fst (submit_start (ref_platform True) example_state) = Pending 2
   \<and> chatWindow (fst (submit (ref_platform True) (Response 500 Unreadable) example_state))
       = chatWindow example_state
         @ [user_bubble 1 (lit ''Which serum?''),
            ai_bubble 3 (lit ''Network error. Check console.'')]
   \<and> TextContent (Str (lit ''Server error. See console.''))
       \<notin> body ` set (chatWindow (fst (submit (ref_platform True) (Response 500 Unreadable)
                                       example_state)))"
proof -
  have s: "\<not> resp_ok 500"
    by (simp add: resp_ok_def)
  have "chatWindow (fst (submit (ref_platform True) (Response 500 Unreadable) example_state))
       = filter (\<lambda>x. eid x \<noteq> 2) (chatWindow (snd (submit_start (ref_platform True) example_state)))
         @ [ai_bubble (Suc (Suc (created example_state)))
              (rendered_text (ref_platform True) (Response 500 Unreadable))]"
    by (rule chatWindow_submit [OF example_pending])
  then have c: "chatWindow (fst (submit (ref_platform True) (Response 500 Unreadable) example_state))
       = chatWindow example_state
         @ [user_bubble 1 (lit ''Which serum?''),
            ai_bubble 3 (lit ''Network error. Check console.'')]"
    by (simp add: example_transcript rendered_text_def)
       (simp add: example_state_def eval_nat_numeral)
  have "TextContent (Str (lit ''Server error. See console.''))
       \<notin> body ` set (chatWindow (fst (submit (ref_platform True) (Response 500 Unreadable)
                                       example_state)))"
    unfolding c by (simp add: example_state_def user_bubble_def ai_bubble_def lit_def)
  with s example_pending c show ?thesis by blast
qed

section \<open>A response without a usable reply\<close>

text \<open>
  C3, as the script has it. Take a submission that issued its request and a response with
  a success status. The typing indicator is gone afterwards, and whenever no non-empty
  reply text comes out of the response the history has gained the user message and nothing
  else. The notice depends on how the reply fails: when the body parses as JSON and
  \<open>choices[0].message.content\<close> is missing, \<open>null\<close> or a string that trims to the empty
  string, the bubble added is the no-reply notice; when the body cannot be read, is not
  JSON, or holds a content that is not a string, the handler's catch branch adds the
  network-error notice instead.
\<close>

theorem empty_reply_notice:
  assumes "fst (submit_start P st) = Pending el" and "resp_ok status"
  shows "el \<notin> eid ` set (chatWindow (fst (submit P (Response status b) st)))
       \<and> (accepted_reply P (Response status b) = None \<longrightarrow>
            history (fst (submit P (Response status b) st))
              = push_history (history st)
                  (msg_obj (Str (lit ''user'')) (Str (trim (userInput_value st)))))
       \<and> (JSON_parse P t = Some data \<and> (reply data = Inr None \<or> reply data = Inr (Some []))
            \<longrightarrow> accepted_reply P (Response status (Body t)) = None
               \<and> chatWindow (fst (submit P (Response status (Body t)) st))
                   = filter (\<lambda>x. eid x \<noteq> el) (chatWindow (snd (submit_start P st)))
                     @ [ai_bubble (Suc (Suc (created st)))
                          (lit ''No reply received. Check worker logs.'')])
       \<and> (JSON_parse P t = None \<or> (\<exists>e. JSON_parse P t = Some data \<and> reply data = Inl e)
            \<longrightarrow> accepted_reply P (Response status (Body t)) = None
               \<and> chatWindow (fst (submit P (Response status (Body t)) st))
                   = filter (\<lambda>x. eid x \<noteq> el) (chatWindow (snd (submit_start P st)))
                     @ [ai_bubble (Suc (Suc (created st)))
                          (lit ''Network error. Check console.'')])
       \<and> accepted_reply P (Response status Unreadable) = None
       \<and> chatWindow (fst (submit P (Response status Unreadable) st))
           = filter (\<lambda>x. eid x \<noteq> el) (chatWindow (snd (submit_start P st)))
             @ [ai_bubble (Suc (Suc (created st))) (lit ''Network error. Check console.'')]"
proof -
  note cw = chatWindow_submit [OF assms(1)]
  have empty: "accepted_reply P (Response status (Body t)) = None
       \<and> rendered_text P (Response status (Body t)) = lit ''No reply received. Check worker logs.''"
    if "JSON_parse P t = Some data \<and> (reply data = Inr None \<or> reply data = Inr (Some []))"
    using that assms(2) by (auto simp add: accepted_reply_def rendered_text_def)
  have thrown: "accepted_reply P (Response status (Body t)) = None
       \<and> rendered_text P (Response status (Body t)) = lit ''Network error. Check console.''"
    if "JSON_parse P t = None \<or> (\<exists>e. JSON_parse P t = Some data \<and> reply data = Inl e)"
    using that assms(2) by (auto simp add: accepted_reply_def rendered_text_def)
  have unread: "accepted_reply P (Response status Unreadable) = None
       \<and> rendered_text P (Response status Unreadable) = lit ''Network error. Check console.''"
    by (simp add: accepted_reply_def rendered_text_def)
  show ?thesis
  proof (intro conjI impI)
    show "el \<notin> eid ` set (chatWindow (fst (submit P (Response status b) st)))"
      by (rule indicator_gone [OF assms(1)])
  next
    assume "accepted_reply P (Response status b) = None"
    then show "history (fst (submit P (Response status b) st))
              = push_history (history st)
                  (msg_obj (Str (lit ''user'')) (Str (trim (userInput_value st))))"
      by (rule history_submit_unaccepted [OF assms(1)])
  next
    assume a: "JSON_parse P t = Some data \<and> (reply data = Inr None \<or> reply data = Inr (Some []))"
    from empty [OF a] show "accepted_reply P (Response status (Body t)) = None"
      by (rule conjunct1)
    from empty [OF a] show "chatWindow (fst (submit P (Response status (Body t)) st))
                   = filter (\<lambda>x. eid x \<noteq> el) (chatWindow (snd (submit_start P st)))
                     @ [ai_bubble (Suc (Suc (created st)))
                          (lit ''No reply received. Check worker logs.'')]"
      by (simp add: cw)
  next
    assume a: "JSON_parse P t = None \<or> (\<exists>e. JSON_parse P t = Some data \<and> reply data = Inl e)"
    from thrown [OF a] show "accepted_reply P (Response status (Body t)) = None"
      by (rule conjunct1)
    from thrown [OF a] show "chatWindow (fst (submit P (Response status (Body t)) st))
                   = filter (\<lambda>x. eid x \<noteq> el) (chatWindow (snd (submit_start P st)))
                     @ [ai_bubble (Suc (Suc (created st)))
                          (lit ''Network error. Check console.'')]"
      by (simp add: cw)
  next
    from unread show "accepted_reply P (Response status Unreadable) = None"
      by (rule conjunct1)
    from unread show "chatWindow (fst (submit P (Response status Unreadable) st))
           = filter (\<lambda>x. eid x \<noteq> el) (chatWindow (snd (submit_start P st)))
             @ [ai_bubble (Suc (Suc (created st))) (lit ''Network error. Check console.'')]"
      by (simp add: cw)
  qed
qed

lemma blank_body_reply:
  "JSON_parse (ref_platform True) blank_body
     = Some (Obj [(lit ''choices'',
                   Arr [Obj [(lit ''message'', Obj [(lit ''content'', Str (lit ''  ''))])]])])"
  by code_simp

lemma blank_reply:
  "reply (Obj [(lit ''choices'',
                Arr [Obj [(lit ''message'', Obj [(lit ''content'', Str (lit ''  ''))])]])]
          :: jsstring jsval) = Inr (Some [])"
  by code_simp

lemma html_body_unparseable: "JSON_parse (ref_platform True) html_body = None"
  by code_simp

lemma number_body_reply:
  "JSON_parse (ref_platform True) number_body
     = Some (Obj [(lit ''choices'',
                   Arr [Obj [(lit ''message'', Obj [(lit ''content'', Num (lit ''5''))])]])])"
  by code_simp

lemma number_reply:
  "reply (Obj [(lit ''choices'',
                Arr [Obj [(lit ''message'', Obj [(lit ''content'', Num (lit ''5''))])]])]
          :: jsstring jsval) = Inl TypeError"
  by code_simp

lemma example_history_after_submit:
  "push_history (history example_state)
     (msg_obj (Str (lit ''user'')) (Str (trim (userInput_value example_state))))
   = [msg_obj (Str (lit ''assistant'')) (Str (lit ''Hi Ada!'')),
      msg_obj (Str (lit ''user'')) (Str (lit ''Which serum?''))]"
  by (simp add: example_input)
     (simp add: example_state_def push_history_def Let_def MAX_HISTORY_MESSAGES_def)

lemma example_created: "Suc (Suc (created example_state)) = 3"
  by (simp add: example_state_def)

theorem empty_reply_notice_witness:
  "fst (submit_start (ref_platform True) example_state) = Pending 2
   \<and> resp_ok 200
   \<and> accepted_reply (ref_platform True) (Response 200 (Body blank_body)) = None
   \<and> 2 \<notin> eid ` set (chatWindow (fst (submit (ref_platform True)
                         (Response 200 (Body blank_body)) example_state)))
   \<and> history (fst (submit (ref_platform True) (Response 200 (Body blank_body)) example_state))
       = [msg_obj (Str (lit ''assistant'')) (Str (lit ''Hi Ada!'')),
          msg_obj (Str (lit ''user'')) (Str (lit ''Which serum?''))]
   \<and> chatWindow (fst (submit (ref_platform True) (Response 200 (Body blank_body)) example_state))
       = chatWindow example_state
         @ [user_bubble 1 (lit ''Which serum?''),
            ai_bubble 3 (lit ''No reply received. Check worker logs.'')]
   \<and> JSON_parse (ref_platform True) html_body = None
   \<and> chatWindow (fst (submit (ref_platform True) (Response 200 (Body html_body)) example_state))
       = chatWindow example_state
         @ [user_bubble 1 (lit ''Which serum?''),
            ai_bubble 3 (lit ''Network error. Check console.'')]"
proof -
  have s: "resp_ok 200"
    by (simp add: resp_ok_def)
  note T = empty_reply_notice [OF example_pending s, of "Body blank_body" blank_body
      "Obj [(lit ''choices'',
             Arr [Obj [(lit ''message'', Obj [(lit ''content'', Str (lit ''  ''))])]])]"]
  note U = empty_reply_notice [OF example_pending s, of "Body html_body" html_body Null]
  from T have gone: "2 \<notin> eid ` set (chatWindow (fst (submit (ref_platform True)
                         (Response 200 (Body blank_body)) example_state)))"
    by (rule conjunct1)
  from T blank_body_reply blank_reply
  have none: "accepted_reply (ref_platform True) (Response 200 (Body blank_body)) = None"
    and "chatWindow (fst (submit (ref_platform True) (Response 200 (Body blank_body)) example_state))
           = filter (\<lambda>x. eid x \<noteq> 2) (chatWindow (snd (submit_start (ref_platform True) example_state)))
             @ [ai_bubble (Suc (Suc (created example_state)))
                  (lit ''No reply received. Check worker logs.'')]"
    by blast+
  then have c: "chatWindow (fst (submit (ref_platform True) (Response 200 (Body blank_body)) example_state))
       = chatWindow example_state
         @ [user_bubble 1 (lit ''Which serum?''),
            ai_bubble 3 (lit ''No reply received. Check worker logs.'')]"
    by (simp add: example_transcript example_created)
  from T none have h: "history (fst (submit (ref_platform True) (Response 200 (Body blank_body)) example_state))
       = [msg_obj (Str (lit ''assistant'')) (Str (lit ''Hi Ada!'')),
          msg_obj (Str (lit ''user'')) (Str (lit ''Which serum?''))]"
    by (simp add: example_history_after_submit)
  from U html_body_unparseable
  have "chatWindow (fst (submit (ref_platform True) (Response 200 (Body html_body)) example_state))
           = filter (\<lambda>x. eid x \<noteq> 2) (chatWindow (snd (submit_start (ref_platform True) example_state)))
             @ [ai_bubble (Suc (Suc (created example_state)))
                  (lit ''Network error. Check console.'')]"
    by blast
  then have n: "chatWindow (fst (submit (ref_platform True) (Response 200 (Body html_body)) example_state))
       = chatWindow example_state
         @ [user_bubble 1 (lit ''Which serum?''),
            ai_bubble 3 (lit ''Network error. Check console.'')]"
    by (simp add: example_transcript example_created)
  from example_pending s none gone h c html_body_unparseable n show ?thesis by blast
qed

text \<open>
  As the claim states it, C3 has the no-reply notice whenever a success response yields no
  reply text. For a response with status 200 whose body is not JSON, and for one whose
  content is a number, no reply text comes out, the transcript ends with the network-error
  notice, and it holds no no-reply notice.
\<close>

theorem unparseable_reply_notice:
  "resp_ok 200
   \<and> fst (submit_start (ref_platform True) example_state) = Pending 2
   \<and> JSON_parse (ref_platform True) html_body = None
   \<and> accepted_reply (ref_platform True) (Response 200 (Body html_body)) = None
   \<and> chatWindow (fst (submit (ref_platform True) (Response 200 (Body html_body)) example_state))
       = chatWindow example_state
         @ [user_bubble 1 (lit ''Which serum?''),
            ai_bubble 3 (lit ''Network error. Check console.'')]
   \<and> TextContent (Str (lit ''No reply received. Check worker logs.''))
       \<notin> body ` set (chatWindow (fst (submit (ref_platform True) (Response 200 (Body html_body))
                                       example_state)))
   \<and> accepted_reply (ref_platform True) (Response 200 (Body number_body)) = None
   \<and> chatWindow (fst (submit (ref_platform True) (Response 200 (Body number_body)) example_state))
       = chatWindow example_state
         @ [user_bubble 1 (lit ''Which serum?''),
            ai_bubble 3 (lit ''Network error. Check console.'')]"
proof -
  have s: "resp_ok 200"
    by (simp add: resp_ok_def)
  have a1: "accepted_reply (ref_platform True) (Response 200 (Body html_body)) = None"
    by (simp add: accepted_reply_def s html_body_unparseable)
  have r1: "rendered_text (ref_platform True) (Response 200 (Body html_body))
              = lit ''Network error. Check console.''"
    by (simp add: rendered_text_def s html_body_unparseable)
  have a2: "accepted_reply (ref_platform True) (Response 200 (Body number_body)) = None"
    by (simp add: accepted_reply_def s number_body_reply number_reply)
  have r2: "rendered_text (ref_platform True) (Response 200 (Body number_body))
              = lit ''Network error. Check console.''"
    by (simp add: rendered_text_def s number_body_reply number_reply)
  have c1: "chatWindow (fst (submit (ref_platform True) (Response 200 (Body html_body)) example_state))
       = chatWindow example_state
         @ [user_bubble 1 (lit ''Which serum?''),
            ai_bubble 3 (lit ''Network error. Check console.'')]"
    by (simp add: chatWindow_submit [OF example_pending] r1 example_transcript example_created)
  have c2: "chatWindow (fst (submit (ref_platform True) (Response 200 (Body number_body)) example_state))
       = chatWindow example_state
         @ [user_bubble 1 (lit ''Which serum?''),
            ai_bubble 3 (lit ''Network error. Check console.'')]"
    by (simp add: chatWindow_submit [OF example_pending] r2 example_transcript example_created)
  have "TextContent (Str (lit ''No reply received. Check worker logs.''))
       \<notin> body ` set (chatWindow (fst (submit (ref_platform True) (Response 200 (Body html_body))
                                       example_state)))"
    unfolding c1 by (simp add: example_state_def user_bubble_def ai_bubble_def lit_def)
  with s example_pending html_body_unparseable a1 c1 a2 c2 show ?thesis by blast
qed

end
